theory Spec2Isabelle
  imports Complex_Main
begin

section \<open>Python values, exceptions and the world the handlers act on\<close>

text \<open>
  The two services of \<^verbatim>\<open>mesh-server\<close> (\<^verbatim>\<open>app.py\<close> on Open3D,
  \<^verbatim>\<open>app_trimesh_alternative.py\<close> on trimesh) are embedded function by function.
  A Python exception is a value: its class name (\<^verbatim>\<open>type(e).__name__\<close>) and its
  message (\<^verbatim>\<open>str(e)\<close>). Every exception of the model derives from
  \<^verbatim>\<open>Exception\<close>. A computation that may raise returns \<open>exn + 'a\<close>, with
  \<open>Inl\<close> for the raise. Python floats are idealised as real numbers.
\<close>

datatype exn = Exn (exn_type: string) (exn_msg: string)

definition bindE :: "exn + 'a \<Rightarrow> ('a \<Rightarrow> exn + 'b) \<Rightarrow> exn + 'b" where
  "bindE m f = (case m of Inl e \<Rightarrow> Inl e | Inr x \<Rightarrow> f x)"

text \<open>Parsed JSON, as \<^verbatim>\<open>json.loads\<close> and \<^verbatim>\<open>request.get_json\<close> deliver it.\<close>

datatype json =
    JNull
  | JBool bool
  | JInt int
  | JFloat real
  | JStr string
  | JArr "json list"
  | JObj "(string \<times> json) list"

text \<open>
  The file system is a map from paths to file contents. Two ghost fields record
  effects: \<open>written\<close> lists the paths written so far, in order, and \<open>calls\<close> lists
  the surface-reconstruction calls made into the geometry library.
\<close>

datatype libcall =
    BallPivoting "real list"
  | AlphaShape real
  | ConvexHull

record world =
  fs :: "string \<Rightarrow> string option"
  written :: "string list"
  calls :: "libcall list"

definition write_file :: "string \<Rightarrow> string \<Rightarrow> world \<Rightarrow> world" where
  "write_file path bytes w = w\<lparr>fs := (fs w)(path \<mapsto> bytes), written := written w @ [path]\<rparr>"

definition log_call :: "libcall \<Rightarrow> world \<Rightarrow> world" where
  "log_call c w = w\<lparr>calls := calls w @ [c]\<rparr>"

text \<open>
  What Python and the operating system contribute to one request: the identifier
  \<^verbatim>\<open>str(uuid.uuid4())\<close> drawn for it, the seconds measured around the
  reconstruction call, the builtins \<^verbatim>\<open>float\<close>, \<^verbatim>\<open>int\<close> and
  \<^verbatim>\<open>json.loads\<close> on strings, and the errors \<^verbatim>\<open>open(path, 'wb')\<close> and
  \<^verbatim>\<open>os.remove(path)\<close> may meet.
\<close>

record pyenv =
  uuid4 :: string
  elapsed :: real
  py_float :: "string \<Rightarrow> exn + real"
  py_int :: "string \<Rightarrow> exn + int"
  json_loads :: "string \<Rightarrow> exn + json"
  open_error :: "string \<Rightarrow> exn option"
  remove_error :: "string \<Rightarrow> exn option"

definition open_write :: "pyenv \<Rightarrow> string \<Rightarrow> string \<Rightarrow> world \<Rightarrow> (exn + unit) \<times> world" where
  "open_write env path bytes w =
     (case open_error env path of
        Some e \<Rightarrow> (Inl e, w)
      | None \<Rightarrow> (Inr (), write_file path bytes w))"

definition os_remove :: "pyenv \<Rightarrow> string \<Rightarrow> world \<Rightarrow> (exn + unit) \<times> world" where
  "os_remove env path w =
     (case remove_error env path of
        Some e \<Rightarrow> (Inl e, w)
      | None \<Rightarrow>
          (case fs w path of
             None \<Rightarrow> (Inl (Exn ''FileNotFoundError'' path), w)
           | Some _ \<Rightarrow> (Inr (), w\<lparr>fs := (fs w)(path := None)\<rparr>)))"

text \<open>An HTTP request as Flask presents it to a handler.\<close>

record request =
  args :: "(string \<times> string) list"
  content_type :: "string option"
  data :: string
  get_json :: "exn + json"

text \<open>
  A value put into a header (through \<^verbatim>\<open>str\<close>) or into a \<^verbatim>\<open>jsonify\<close> body.
\<close>

datatype pyval = PInt int | PFloat real | PStr string | PBool bool

datatype response =
    SendFile (body: string) (mimetype: string) (download_name: string)
      (headers: "(string \<times> pyval) list")
  | Jsonify (status: nat) (fields: "(string \<times> pyval) list")

definition json_error :: "exn \<Rightarrow> response" where
  "json_error e = Jsonify 500 [(''error'', PStr (exn_msg e)), (''type'', PStr (exn_type e))]"

text \<open>
  \<^verbatim>\<open>send_file(path, mimetype='application/octet-stream', as_attachment=True,
  download_name=name)\<close>: the response carries the content of the file. All relative
  paths are read from one directory (the server runs in the directory of its module).
\<close>

definition send_file :: "world \<Rightarrow> string \<Rightarrow> string \<Rightarrow> exn + response" where
  "send_file w path name =
     (case fs w path of
        None \<Rightarrow> Inl (Exn ''FileNotFoundError'' path)
      | Some bytes \<Rightarrow> Inr (SendFile bytes ''application/octet-stream'' name []))"

definition set_header :: "string \<Rightarrow> pyval \<Rightarrow> response \<Rightarrow> response" where
  "set_header k v r =
     (case r of
        SendFile b m n hs \<Rightarrow> SendFile b m n (hs @ [(k, v)])
      | Jsonify s fl \<Rightarrow> Jsonify s fl)"

text \<open>\<^verbatim>\<open>request.args.get(key, default)\<close> then \<^verbatim>\<open>float\<close> or \<^verbatim>\<open>int\<close>.\<close>

definition arg_float :: "pyenv \<Rightarrow> request \<Rightarrow> string \<Rightarrow> real \<Rightarrow> exn + real" where
  "arg_float env req key dflt =
     (case map_of (args req) key of None \<Rightarrow> Inr dflt | Some s \<Rightarrow> py_float env s)"

definition arg_int :: "pyenv \<Rightarrow> request \<Rightarrow> string \<Rightarrow> int \<Rightarrow> exn + int" where
  "arg_int env req key dflt =
     (case map_of (args req) key of None \<Rightarrow> Inr dflt | Some s \<Rightarrow> py_int env s)"

definition arg_str :: "request \<Rightarrow> string \<Rightarrow> string \<Rightarrow> string" where
  "arg_str req key dflt = (case map_of (args req) key of None \<Rightarrow> dflt | Some s \<Rightarrow> s)"

section \<open>Python operations on JSON values\<close>

definition quoted :: "string \<Rightarrow> string" where
  "quoted s = [CHR 0x27] @ s @ [CHR 0x27]"

definition type_name :: "json \<Rightarrow> string" where
  "type_name v =
     (case v of
        JNull \<Rightarrow> ''NoneType'' | JBool _ \<Rightarrow> ''bool'' | JInt _ \<Rightarrow> ''int''
      | JFloat _ \<Rightarrow> ''float'' | JStr _ \<Rightarrow> ''str'' | JArr _ \<Rightarrow> ''list''
      | JObj _ \<Rightarrow> ''dict'')"

text \<open>\<^verbatim>\<open>d.get(key, default)\<close>: only a dict has the method.\<close>

definition dict_get :: "json \<Rightarrow> string \<Rightarrow> json \<Rightarrow> exn + json" where
  "dict_get d key dflt =
     (case d of
        JObj kvs \<Rightarrow> (case map_of kvs key of None \<Rightarrow> Inr dflt | Some v \<Rightarrow> Inr v)
      | _ \<Rightarrow> Inl (Exn ''AttributeError''
                (quoted (type_name d) @ '' object has no attribute '' @ quoted ''get'')))"

text \<open>\<^verbatim>\<open>p[key]\<close> with a string key.\<close>

definition subscript :: "json \<Rightarrow> string \<Rightarrow> exn + json" where
  "subscript p key =
     (case p of
        JObj kvs \<Rightarrow>
          (case map_of kvs key of None \<Rightarrow> Inl (Exn ''KeyError'' (quoted key)) | Some v \<Rightarrow> Inr v)
      | JStr _ \<Rightarrow> Inl (Exn ''TypeError'' ''string indices must be integers'')
      | JArr _ \<Rightarrow> Inl (Exn ''TypeError'' ''list indices must be integers or slices, not str'')
      | _ \<Rightarrow> Inl (Exn ''TypeError'' (quoted (type_name p) @ '' object is not subscriptable'')))"

text \<open>Truth value of a JSON value, as \<^verbatim>\<open>not points\<close> tests it.\<close>

definition truthy :: "json \<Rightarrow> bool" where
  "truthy v =
     (case v of
        JNull \<Rightarrow> False | JBool b \<Rightarrow> b | JInt i \<Rightarrow> i \<noteq> 0 | JFloat r \<Rightarrow> r \<noteq> 0
      | JStr s \<Rightarrow> s \<noteq> [] | JArr xs \<Rightarrow> xs \<noteq> [] | JObj kvs \<Rightarrow> kvs \<noteq> [])"

text \<open>The elements a \<^verbatim>\<open>for\<close> loop visits.\<close>

definition py_iter :: "json \<Rightarrow> exn + json list" where
  "py_iter v =
     (case v of
        JArr xs \<Rightarrow> Inr xs
      | JStr s \<Rightarrow> Inr (map (\<lambda>c. JStr [c]) s)
      | JObj kvs \<Rightarrow> Inr (map (\<lambda>kv. JStr (fst kv)) kvs)
      | _ \<Rightarrow> Inl (Exn ''TypeError'' (quoted (type_name v) @ '' object is not iterable'')))"

text \<open>The number a value compares and divides as; \<open>None\<close> where Python raises TypeError.\<close>

definition num_of :: "json \<Rightarrow> real option" where
  "num_of v =
     (case v of
        JInt i \<Rightarrow> Some (of_int i)
      | JFloat r \<Rightarrow> Some r
      | JBool b \<Rightarrow> Some (if b then 1 else 0)
      | _ \<Rightarrow> None)"

definition py_gt :: "json \<Rightarrow> real \<Rightarrow> exn + bool" where
  "py_gt v c =
     (case num_of v of
        Some x \<Rightarrow> Inr (x > c)
      | None \<Rightarrow> Inl (Exn ''TypeError'' ''> not supported between these instances''))"

definition py_div :: "json \<Rightarrow> real \<Rightarrow> exn + json" where
  "py_div v c =
     (case num_of v of
        Some x \<Rightarrow> if c = 0 then Inl (Exn ''ZeroDivisionError'' ''float division by zero'')
                  else Inr (JFloat (x / c))
      | None \<Rightarrow> Inl (Exn ''TypeError'' ''unsupported operand type(s) for /''))"

section \<open>app.py: json_to_ply\<close>

text \<open>
  One colour channel of one point (lines 202 to 204, the same expression for
  \<^verbatim>\<open>'r'\<close>, \<^verbatim>\<open>'g'\<close> and \<^verbatim>\<open>'b'\<close>):
  \<^verbatim>\<open>p.get(k, 128) / 255.0 if p.get(k, 128) > 1 else p.get(k, 0.5)\<close>.
\<close>

definition color_channel :: "json \<Rightarrow> string \<Rightarrow> exn + json" where
  "color_channel p k =
     bindE (dict_get p k (JInt 128)) (\<lambda>c.
     bindE (py_gt c 1) (\<lambda>big.
       if big then bindE (dict_get p k (JInt 128)) (\<lambda>v. py_div v 255)
       else dict_get p k (JFloat 0.5)))"

text \<open>The body of the loop over the points: the coordinates, then the three channels.\<close>

definition point_entry :: "json \<Rightarrow> exn + (json list \<times> json list)" where
  "point_entry p =
     bindE (subscript p ''x'') (\<lambda>x.
     bindE (subscript p ''y'') (\<lambda>y.
     bindE (subscript p ''z'') (\<lambda>z.
     bindE (color_channel p ''r'') (\<lambda>r.
     bindE (color_channel p ''g'') (\<lambda>g.
     bindE (color_channel p ''b'') (\<lambda>b.
       Inr ([x, y, z], [r, g, b])))))))"

fun extract_points :: "json list \<Rightarrow> json list list \<Rightarrow> json list list
    \<Rightarrow> exn + (json list list \<times> json list list)" where
  "extract_points [] coords colors = Inr (coords, colors)"
| "extract_points (p # ps) coords colors =
     (case point_entry p of
        Inl e \<Rightarrow> Inl e
      | Inr (xyz, rgb) \<Rightarrow> extract_points ps (coords @ [xyz]) (colors @ [rgb]))"

section \<open>app.py: the ball radii of reconstruct_mesh_ball_pivoting\<close>

text \<open>
  Lines 105 to 108: \<^verbatim>\<open>for i in range(num_radii)\<close> appends
  \<^verbatim>\<open>avg_dist * (radius_multiplier * (1 + i * 0.5))\<close>. \<^verbatim>\<open>range\<close> of a number below
  one is empty.
\<close>

definition py_range :: "int \<Rightarrow> int list" where
  "py_range n = [0..n - 1]"

definition ball_radii :: "real \<Rightarrow> real \<Rightarrow> int \<Rightarrow> real list" where
  "ball_radii avg_dist radius_multiplier num_radii =
     foldl (\<lambda>radii i. radii @ [avg_dist * (radius_multiplier * (1 + of_int i * 0.5))])
       [] (py_range num_radii)"


section \<open>The state and exception monad of the handlers\<close>

type_synonym 'a io = "world \<Rightarrow> (exn + 'a) \<times> world"

definition ret :: "'a \<Rightarrow> 'a io" where
  "ret x w = (Inr x, w)"

definition raise :: "exn \<Rightarrow> 'a io" where
  "raise e w = (Inl e, w)"

definition lift :: "exn + 'a \<Rightarrow> 'a io" where
  "lift r w = (r, w)"

definition bindS :: "'a io \<Rightarrow> ('a \<Rightarrow> 'b io) \<Rightarrow> 'b io" where
  "bindS m f w = (case m w of (Inl e, w') \<Rightarrow> (Inl e, w') | (Inr x, w') \<Rightarrow> f x w')"

text \<open>\<^verbatim>\<open>try: m  except: pass\<close>.\<close>

definition try_pass :: "unit io \<Rightarrow> unit io" where
  "try_pass m w = (case m w of (_, w') \<Rightarrow> (Inr (), w'))"

text \<open>
  \<^verbatim>\<open>try: body  except Exception as e: return jsonify({'error': str(e), 'type':
  type(e).__name__}), 500\<close>: the shape of all four request handlers.
\<close>

definition handle :: "response io \<Rightarrow> world \<Rightarrow> response \<times> world" where
  "handle m w = (case m w of (Inl e, w') \<Rightarrow> (json_error e, w') | (Inr r, w') \<Rightarrow> (r, w'))"

section \<open>app.py: the Open3D service\<close>

text \<open>
  The Open3D and NumPy calls the service makes, as parameters. A point cloud is a
  value of type \<open>'pcd\<close>, a triangle mesh one of type \<open>'mesh\<close>; a method that mutates
  its object returns the new object. \<open>read_point_cloud\<close> is given the path and the
  file's content (\<open>None\<close> when there is no such file). The two writers return \<open>None\<close>
  when Open3D reports failure (\<^verbatim>\<open>False\<close>) and the bytes of the file otherwise.
\<close>

record ('pcd, 'mesh) open3d =
  make_point_cloud :: "json list list \<Rightarrow> json list list \<Rightarrow> exn + 'pcd"
  write_point_cloud :: "string \<Rightarrow> 'pcd \<Rightarrow> exn + string option"
  read_point_cloud :: "string \<Rightarrow> string option \<Rightarrow> exn + 'pcd"
  has_points :: "'pcd \<Rightarrow> bool"
  num_points :: "'pcd \<Rightarrow> nat"
  has_normals :: "'pcd \<Rightarrow> bool"
  has_colors :: "'pcd \<Rightarrow> bool"
  compute_nearest_neighbor_distance :: "'pcd \<Rightarrow> exn + real list"
  np_mean :: "real list \<Rightarrow> real"
  estimate_normals :: "'pcd \<Rightarrow> real \<Rightarrow> int \<Rightarrow> exn + 'pcd"
  orient_normals_consistent_tangent_plane :: "'pcd \<Rightarrow> int \<Rightarrow> exn + 'pcd"
  create_from_point_cloud_ball_pivoting :: "'pcd \<Rightarrow> real list \<Rightarrow> exn + 'mesh"
  has_triangles :: "'mesh \<Rightarrow> bool"
  num_vertices :: "'mesh \<Rightarrow> nat"
  num_triangles :: "'mesh \<Rightarrow> nat"
  remove_duplicated_vertices :: "'mesh \<Rightarrow> exn + 'mesh"
  remove_duplicated_triangles :: "'mesh \<Rightarrow> exn + 'mesh"
  remove_degenerate_triangles :: "'mesh \<Rightarrow> exn + 'mesh"
  remove_unreferenced_vertices :: "'mesh \<Rightarrow> exn + 'mesh"
  compute_vertex_normals :: "'mesh \<Rightarrow> exn + 'mesh"
  write_triangle_mesh :: "string \<Rightarrow> 'mesh \<Rightarrow> exn + string option"

text \<open>\<^verbatim>\<open>json_to_ply(json_data, output_path)\<close>, lines 174 to 214.\<close>

definition json_to_ply ::
  "pyenv \<Rightarrow> ('pcd, 'mesh) open3d \<Rightarrow> json \<Rightarrow> string \<Rightarrow> unit io" where
  "json_to_ply env lib json_data output_path =
     bindS (lift (case json_data of JStr s \<Rightarrow> json_loads env s | _ \<Rightarrow> Inr json_data)) (\<lambda>data.
     bindS (lift (dict_get data ''points'' (JArr []))) (\<lambda>points.
       if \<not> truthy points then raise (Exn ''ValueError'' ''No points in JSON data'')
       else
         bindS (lift (py_iter points)) (\<lambda>ps.
         bindS (lift (extract_points ps [] [])) (\<lambda>(coords, colors).
         bindS (lift (make_point_cloud lib coords colors)) (\<lambda>pcd.
         bindS (lift (write_point_cloud lib output_path pcd)) (\<lambda>out.
           case out of
             None \<Rightarrow> ret ()
           | Some bytes \<Rightarrow> (\<lambda>w. (Inr (), write_file output_path bytes w))))))))"

text \<open>The \<^verbatim>\<open>params\<close> dictionary: a key that is absent is \<open>None\<close>.\<close>

record params =
  radius_multiplier :: "real option"
  num_radii :: "int option"
  estimate_normals_flag :: "bool option"
  normal_radius :: "real option"
  normal_max_nn :: "int option"

definition no_params :: params where
  "no_params = \<lparr>radius_multiplier = None, num_radii = None, estimate_normals_flag = None,
     normal_radius = None, normal_max_nn = None\<rparr>"

definition get_default :: "'a option \<Rightarrow> 'a \<Rightarrow> 'a" where
  "get_default v dflt = (case v of None \<Rightarrow> dflt | Some x \<Rightarrow> x)"

record stats =
  num_input_points :: nat
  stat_num_vertices :: nat
  stat_num_triangles :: nat
  processing_time :: real
  radii_used :: "real list"
  avg_point_distance :: real

text \<open>Lines 76 to 97: the normals, estimated when asked for or missing.\<close>

definition normals_stage ::
  "('pcd, 'mesh) open3d \<Rightarrow> bool \<Rightarrow> real option \<Rightarrow> int \<Rightarrow> 'pcd \<Rightarrow> exn + 'pcd" where
  "normals_stage lib estimate nradius max_nn pcd =
     (if estimate \<or> \<not> has_normals lib pcd then
        bindE (case nradius of
                 None \<Rightarrow>
                   bindE (compute_nearest_neighbor_distance lib pcd) (\<lambda>distances.
                     Inr (np_mean lib distances * 2.0))
               | Some r \<Rightarrow> Inr r) (\<lambda>r.
        bindE (estimate_normals lib pcd r max_nn) (\<lambda>pcd1.
          orient_normals_consistent_tangent_plane lib pcd1 15))
      else Inr pcd)"

text \<open>Lines 134 to 152: the cleanup of the mesh.\<close>

definition post_process :: "('pcd, 'mesh) open3d \<Rightarrow> 'mesh \<Rightarrow> exn + 'mesh" where
  "post_process lib mesh =
     bindE (remove_duplicated_vertices lib mesh) (\<lambda>m1.
     bindE (remove_duplicated_triangles lib m1) (\<lambda>m2.
     bindE (remove_degenerate_triangles lib m2) (\<lambda>m3.
     bindE (remove_unreferenced_vertices lib m3) (\<lambda>m4.
       compute_vertex_normals lib m4))))"

text \<open>
  \<^verbatim>\<open>reconstruct_mesh_ball_pivoting(input_path, output_path, params)\<close>, lines 38
  to 171.
\<close>

definition reconstruct_mesh_ball_pivoting ::
  "pyenv \<Rightarrow> ('pcd, 'mesh) open3d \<Rightarrow> string \<Rightarrow> string \<Rightarrow> params option \<Rightarrow> stats io" where
  "reconstruct_mesh_ball_pivoting env lib input_path output_path params_arg =
     (let prm = (case params_arg of None \<Rightarrow> no_params | Some p \<Rightarrow> p);
          rmult = get_default (radius_multiplier prm) 1.5;
          nradii = get_default (num_radii prm) 2;
          estimate = get_default (estimate_normals_flag prm) True;
          nradius = normal_radius prm;
          max_nn = get_default (normal_max_nn prm) 30
      in
      bindS (\<lambda>w. (read_point_cloud lib input_path (fs w input_path), w)) (\<lambda>pcd0.
        if \<not> has_points lib pcd0 then raise (Exn ''ValueError'' ''Point cloud is empty!'')
        else
          bindS (lift (normals_stage lib estimate nradius max_nn pcd0)) (\<lambda>pcd.
          bindS (lift (compute_nearest_neighbor_distance lib pcd)) (\<lambda>distances.
            let avg_dist = np_mean lib distances;
                radii = ball_radii avg_dist rmult nradii
            in
            bindS (\<lambda>w. (create_from_point_cloud_ball_pivoting lib pcd radii,
                         log_call (BallPivoting radii) w)) (\<lambda>mesh0.
              if \<not> has_triangles lib mesh0
              then raise (Exn ''ValueError'' ''Ball Pivoting failed to generate mesh!'')
              else
                bindS (lift (post_process lib mesh0)) (\<lambda>mesh.
                bindS (lift (write_triangle_mesh lib output_path mesh)) (\<lambda>out.
                  case out of
                    None \<Rightarrow> raise (Exn ''OSError'' (''Failed to save mesh to '' @ output_path))
                  | Some bytes \<Rightarrow>
                      bindS (\<lambda>w. (Inr (), write_file output_path bytes w)) (\<lambda>_.
                        ret \<lparr>num_input_points = num_points lib pcd0,
                             stat_num_vertices = num_vertices lib mesh,
                             stat_num_triangles = num_triangles lib mesh,
                             processing_time = elapsed env,
                             radii_used = radii,
                             avg_point_distance = avg_dist\<rparr>))))))))"

text \<open>
  Lines 260 to 275 of \<^verbatim>\<open>create_mesh\<close>, and again lines 325 to 336 of
  \<^verbatim>\<open>get_mesh_stats\<close>: the input is saved under \<^verbatim>\<open>uploads/\<close>.
\<close>

definition save_input ::
  "pyenv \<Rightarrow> ('pcd, 'mesh) open3d \<Rightarrow> request \<Rightarrow> string \<Rightarrow> string io" where
  "save_input env lib req file_id =
     (if content_type req = Some ''application/json'' then
        (let input_path = ''uploads/'' @ file_id @ ''.ply'' in
         bindS (lift (get_json req)) (\<lambda>json_data.
         bindS (json_to_ply env lib json_data input_path) (\<lambda>_.
           ret input_path)))
      else
        (let input_ext = arg_str req ''input_format'' ''ply'';
             input_path = ''uploads/'' @ file_id @ ''.'' @ input_ext
         in
         bindS (open_write env input_path (data req)) (\<lambda>_.
           ret input_path)))"

text \<open>\<^verbatim>\<open>create_mesh\<close>, lines 227 to 312: the body of the \<^verbatim>\<open>try\<close>, then the handler.\<close>

definition create_mesh_body ::
  "pyenv \<Rightarrow> ('pcd, 'mesh) open3d \<Rightarrow> request \<Rightarrow> response io" where
  "create_mesh_body env lib req =
     (let file_id = uuid4 env in
      bindS (lift (arg_float env req ''radius_multiplier'' 1.5)) (\<lambda>rmult.
      bindS (lift (arg_int env req ''num_radii'' 2)) (\<lambda>nradii.
        let output_format = arg_str req ''format'' ''ply'';
            prm = \<lparr>radius_multiplier = Some rmult, num_radii = Some nradii,
                    estimate_normals_flag = Some True, normal_radius = None,
                    normal_max_nn = None\<rparr>
        in
        bindS (save_input env lib req file_id) (\<lambda>input_path.
          let output_ext = (if output_format = ''ply'' then ''ply'' else ''obj'');
              output_path = ''outputs/'' @ file_id @ ''.'' @ output_ext
          in
          bindS (reconstruct_mesh_ball_pivoting env lib input_path output_path (Some prm))
            (\<lambda>st.
          bindS (try_pass (os_remove env input_path)) (\<lambda>_.
          bindS (\<lambda>w. (send_file w output_path (''mesh_'' @ file_id @ ''.'' @ output_ext), w))
            (\<lambda>resp.
            ret (set_header ''X-Processing-Time'' (PFloat (processing_time st))
                  (set_header ''X-Num-Triangles'' (PInt (int (stat_num_triangles st)))
                    (set_header ''X-Num-Vertices'' (PInt (int (stat_num_vertices st)))
                      resp))))))))))"

definition create_mesh ::
  "pyenv \<Rightarrow> ('pcd, 'mesh) open3d \<Rightarrow> request \<Rightarrow> world \<Rightarrow> response \<times> world" where
  "create_mesh env lib req = handle (create_mesh_body env lib req)"

text \<open>\<^verbatim>\<open>get_mesh_stats\<close>, lines 315 to 363.\<close>

definition get_mesh_stats_body ::
  "pyenv \<Rightarrow> ('pcd, 'mesh) open3d \<Rightarrow> request \<Rightarrow> response io" where
  "get_mesh_stats_body env lib req =
     (let file_id = uuid4 env in
      bindS (save_input env lib req file_id) (\<lambda>input_path.
      bindS (\<lambda>w. (read_point_cloud lib input_path (fs w input_path), w)) (\<lambda>pcd.
      bindS (lift (compute_nearest_neighbor_distance lib pcd)) (\<lambda>distances.
        let avg_dist = np_mean lib distances in
        bindS (try_pass (os_remove env input_path)) (\<lambda>_.
          ret (Jsonify 200
            [(''num_points'', PInt (int (num_points lib pcd))),
             (''avg_point_distance'', PFloat avg_dist),
             (''suggested_radius'', PFloat (avg_dist * 1.5)),
             (''has_normals'', PBool (has_normals lib pcd)),
             (''has_colors'', PBool (has_colors lib pcd))]))))))"

definition get_mesh_stats ::
  "pyenv \<Rightarrow> ('pcd, 'mesh) open3d \<Rightarrow> request \<Rightarrow> world \<Rightarrow> response \<times> world" where
  "get_mesh_stats env lib req = handle (get_mesh_stats_body env lib req)"


section \<open>app_trimesh_alternative.py: the trimesh service\<close>

type_synonym vec3 = "real \<times> real \<times> real"
type_synonym rgb = "nat \<times> nat \<times> nat"

text \<open>
  The trimesh, NumPy and SciPy calls the service makes, as parameters. An array of
  coordinates is a list of points, an array of colours a list of byte triples.
  \<open>pca_normal lib coords point k\<close> stands for lines 80 to 92 (the \<open>k\<close> nearest
  neighbours of the point from the k-d tree, their covariance, its eigenvectors, the
  one of least eigenvalue); \<open>nn_distance\<close> for the query of lines 283 and 284;
  \<open>nearest_indices\<close> for the query of line 134. \<open>alpha_shape\<close> may return no mesh
  (\<^verbatim>\<open>None\<close>). \<open>export\<close> returns the bytes written to the path.
\<close>

record ('pc, 'mesh) trimesh =
  np_array_coords :: "json list list \<Rightarrow> exn + vec3 list"
  np_array_uint8 :: "json list list \<Rightarrow> exn + rgb list"
  tm_load :: "string \<Rightarrow> string option \<Rightarrow> exn + 'pc"
  pc_vertices :: "'pc \<Rightarrow> exn + vec3 list"
  pc_colors :: "'pc \<Rightarrow> (exn + rgb list) option"
  point_cloud_ctor :: "vec3 list \<Rightarrow> exn + unit"
  ckdtree :: "vec3 list \<Rightarrow> exn + unit"
  pca_normal :: "vec3 list \<Rightarrow> vec3 \<Rightarrow> nat \<Rightarrow> exn + vec3"
  alpha_shape :: "vec3 list \<Rightarrow> real \<Rightarrow> exn + 'mesh option"
  convex_hull :: "vec3 list \<Rightarrow> exn + 'mesh"
  mesh_vertices :: "'mesh \<Rightarrow> vec3 list"
  num_faces :: "'mesh \<Rightarrow> nat"
  nearest_indices :: "vec3 list \<Rightarrow> vec3 list \<Rightarrow> exn + nat list"
  set_vertex_colors :: "'mesh \<Rightarrow> rgb list \<Rightarrow> exn + 'mesh"
  merge_vertices :: "'mesh \<Rightarrow> exn + 'mesh"
  remove_degenerate_faces :: "'mesh \<Rightarrow> exn + 'mesh"
  remove_unreferenced :: "'mesh \<Rightarrow> exn + 'mesh"
  fix_normals :: "'mesh \<Rightarrow> exn + 'mesh"
  export :: "string \<Rightarrow> 'mesh \<Rightarrow> exn + string"
  nn_distance :: "vec3 list \<Rightarrow> vec3 \<Rightarrow> exn + real"
  mean_distance :: "real list \<Rightarrow> real"

text \<open>\<^verbatim>\<open>json_to_numpy(json_data)\<close>, lines 29 to 45.\<close>

fun coord_rows :: "json list \<Rightarrow> exn + json list list" where
  "coord_rows [] = Inr []"
| "coord_rows (p # ps) =
     bindE (subscript p ''x'') (\<lambda>x.
     bindE (subscript p ''y'') (\<lambda>y.
     bindE (subscript p ''z'') (\<lambda>z.
     bindE (coord_rows ps) (\<lambda>rows. Inr ([x, y, z] # rows)))))"

fun color_rows :: "json list \<Rightarrow> exn + json list list" where
  "color_rows [] = Inr []"
| "color_rows (p # ps) =
     bindE (dict_get p ''r'' (JInt 128)) (\<lambda>r.
     bindE (dict_get p ''g'' (JInt 128)) (\<lambda>g.
     bindE (dict_get p ''b'' (JInt 128)) (\<lambda>b.
     bindE (color_rows ps) (\<lambda>rows. Inr ([r, g, b] # rows)))))"

definition json_to_numpy ::
  "pyenv \<Rightarrow> ('pc, 'mesh) trimesh \<Rightarrow> json \<Rightarrow> exn + (vec3 list \<times> rgb list)" where
  "json_to_numpy env lib json_data =
     bindE (case json_data of JStr s \<Rightarrow> json_loads env s | _ \<Rightarrow> Inr json_data) (\<lambda>data.
     bindE (dict_get data ''points'' (JArr [])) (\<lambda>points.
       if \<not> truthy points then Inl (Exn ''ValueError'' ''No points in JSON data'')
       else
         bindE (py_iter points) (\<lambda>ps.
         bindE (coord_rows ps) (\<lambda>rows.
         bindE (np_array_coords lib rows) (\<lambda>coords.
         bindE (color_rows ps) (\<lambda>crows.
         bindE (np_array_uint8 lib crows) (\<lambda>colors.
           Inr (coords, colors))))))))"

text \<open>Lines 76 to 95: one normal per point.\<close>

fun estimate_normals_pca ::
  "('pc, 'mesh) trimesh \<Rightarrow> vec3 list \<Rightarrow> vec3 list \<Rightarrow> exn + vec3 list" where
  "estimate_normals_pca lib coords [] = Inr []"
| "estimate_normals_pca lib coords (point # rest) =
     bindE (pca_normal lib coords point (min 20 (length coords))) (\<lambda>normal.
     bindE (estimate_normals_pca lib coords rest) (\<lambda>normals. Inr (normal # normals)))"

text \<open>Lines 97 to 103: every normal is turned towards the camera at the origin.\<close>

definition vsub :: "vec3 \<Rightarrow> vec3 \<Rightarrow> vec3" where
  "vsub a b = (case a of (ax, ay, az) \<Rightarrow> case b of (bx, by, bz) \<Rightarrow> (ax - bx, ay - by, az - bz))"

definition vdot :: "vec3 \<Rightarrow> vec3 \<Rightarrow> real" where
  "vdot a b = (case a of (ax, ay, az) \<Rightarrow> case b of (bx, by, bz) \<Rightarrow> ax * bx + ay * by + az * bz)"

definition vneg :: "vec3 \<Rightarrow> vec3" where
  "vneg a = (case a of (ax, ay, az) \<Rightarrow> (- ax, - ay, - az))"

definition orient_normals :: "vec3 list \<Rightarrow> vec3 list \<Rightarrow> vec3 list" where
  "orient_normals coords normals =
     map (\<lambda>(point, normal).
            let view_dir = vsub (0, 0, 0) point
            in if vdot normal view_dir < 0 then vneg normal else normal)
       (zip coords normals)"

text \<open>
  Lines 110 to 123: the alpha shape, and the convex hull when the alpha shape raises,
  returns nothing or returns a mesh without faces.
\<close>

definition surface_mesh :: "('pc, 'mesh) trimesh \<Rightarrow> vec3 list \<Rightarrow> real \<Rightarrow> 'mesh io" where
  "surface_mesh lib coords alpha w =
     (let w1 = log_call (AlphaShape alpha) w;
          attempt =
            (case alpha_shape lib coords alpha of
               Inl e \<Rightarrow> Inl e
             | Inr None \<Rightarrow>
                 Inl (Exn ''ValueError'' ''Alpha shape failed, trying alternative method...'')
             | Inr (Some mesh) \<Rightarrow>
                 if num_faces lib mesh = 0
                 then Inl (Exn ''ValueError'' ''Alpha shape failed, trying alternative method...'')
                 else Inr mesh)
      in case attempt of
           Inr mesh \<Rightarrow> (Inr mesh, w1)
         | Inl e \<Rightarrow> (convex_hull lib coords, log_call ConvexHull w1))"

text \<open>\<^verbatim>\<open>colors[indices]\<close>: an index out of range raises.\<close>

definition take_rows :: "'a list \<Rightarrow> nat list \<Rightarrow> exn + 'a list" where
  "take_rows xs idx =
     (if list_all (\<lambda>i. i < length xs) idx then Inr (map (\<lambda>i. xs ! i) idx)
      else Inl (Exn ''IndexError'' ''index is out of bounds''))"

record tm_stats =
  tm_num_input_points :: nat
  tm_num_vertices :: nat
  tm_num_triangles :: nat
  tm_processing_time :: real
  alpha_used :: real

text \<open>\<^verbatim>\<open>reconstruct_mesh_alpha_shape(coords, colors, alpha)\<close>, lines 48 to 162.\<close>

definition reconstruct_mesh_alpha_shape ::
  "pyenv \<Rightarrow> ('pc, 'mesh) trimesh \<Rightarrow> vec3 list \<Rightarrow> rgb list \<Rightarrow> real
    \<Rightarrow> ('mesh \<times> tm_stats) io" where
  "reconstruct_mesh_alpha_shape env lib coords colors alpha =
     bindS (lift (point_cloud_ctor lib coords)) (\<lambda>_.
     bindS (lift (ckdtree lib coords)) (\<lambda>_.
     bindS (lift (estimate_normals_pca lib coords coords)) (\<lambda>normals0.
       let normals = orient_normals coords normals0 in
       bindS (surface_mesh lib coords alpha) (\<lambda>mesh0.
       bindS (lift (if length colors = length (mesh_vertices lib mesh0)
                    then set_vertex_colors lib mesh0 colors
                    else
                      bindE (ckdtree lib coords) (\<lambda>_.
                      bindE (nearest_indices lib coords (mesh_vertices lib mesh0)) (\<lambda>indices.
                      bindE (take_rows colors indices) (\<lambda>picked.
                        set_vertex_colors lib mesh0 picked))))) (\<lambda>mesh1.
       bindS (lift (merge_vertices lib mesh1)) (\<lambda>mesh2.
       bindS (lift (remove_degenerate_faces lib mesh2)) (\<lambda>mesh3.
       bindS (lift (remove_unreferenced lib mesh3)) (\<lambda>mesh4.
       bindS (lift (fix_normals lib mesh4)) (\<lambda>mesh.
         ret (mesh,
              \<lparr>tm_num_input_points = length coords,
               tm_num_vertices = length (mesh_vertices lib mesh),
               tm_num_triangles = num_faces lib mesh,
               tm_processing_time = elapsed env,
               alpha_used = alpha\<rparr>))))))))))"

text \<open>\<^verbatim>\<open>str.lower\<close>, on ASCII letters.\<close>

definition lower :: "string \<Rightarrow> string" where
  "lower s =
     map (\<lambda>c. let n = (of_char c :: nat) in if 65 \<le> n \<and> n \<le> 90 then char_of (n + 32) else c) s"

text \<open>
  Lines 204 to 221 of \<^verbatim>\<open>create_mesh\<close>: the point cloud of the request, from its JSON
  body or from the uploaded file.
\<close>

definition tm_parse_input ::
  "pyenv \<Rightarrow> ('pc, 'mesh) trimesh \<Rightarrow> request \<Rightarrow> string \<Rightarrow> (vec3 list \<times> rgb list) io" where
  "tm_parse_input env lib req file_id =
     (if content_type req = Some ''application/json'' then
        bindS (lift (get_json req)) (\<lambda>json_data.
          lift (json_to_numpy env lib json_data))
      else
        (let input_path = ''uploads/'' @ file_id @ ''.ply'' in
         bindS (open_write env input_path (data req)) (\<lambda>_.
         bindS (\<lambda>w. (tm_load lib input_path (fs w input_path), w)) (\<lambda>point_cloud.
         bindS (lift (pc_vertices lib point_cloud)) (\<lambda>coords.
         bindS (lift (case pc_colors lib point_cloud of
                        Some c \<Rightarrow> c
                      | None \<Rightarrow> Inr (replicate (length coords) (128, 128, 128)))) (\<lambda>colors.
         bindS (os_remove env input_path) (\<lambda>_.
           ret (coords, colors))))))))"

text \<open>Lines 190 to 194: \<^verbatim>\<open>alpha\<close>, overridden when \<^verbatim>\<open>radius_multiplier\<close> is given.\<close>

definition tm_alpha :: "pyenv \<Rightarrow> request \<Rightarrow> exn + real" where
  "tm_alpha env req =
     bindE (arg_float env req ''alpha'' 0.05) (\<lambda>alpha.
       if map_of (args req) ''radius_multiplier'' \<noteq> None
       then bindE (arg_float env req ''radius_multiplier'' 1.5) (\<lambda>radius. Inr (radius * 0.03))
       else Inr alpha)"

text \<open>\<^verbatim>\<open>create_mesh\<close>, lines 176 to 255.\<close>

definition tm_create_mesh_body ::
  "pyenv \<Rightarrow> ('pc, 'mesh) trimesh \<Rightarrow> request \<Rightarrow> response io" where
  "tm_create_mesh_body env lib req =
     (let file_id = uuid4 env in
      bindS (lift (tm_alpha env req)) (\<lambda>alpha.
        let output_format = arg_str req ''format'' ''ply'' in
        bindS (tm_parse_input env lib req file_id) (\<lambda>(coords, colors).
        bindS (reconstruct_mesh_alpha_shape env lib coords colors alpha) (\<lambda>(mesh, st).
          let output_ext = lower output_format;
              output_path = ''outputs/'' @ file_id @ ''.'' @ output_ext
          in
          bindS (lift (export lib output_path mesh)) (\<lambda>bytes.
          bindS (\<lambda>w. (Inr (), write_file output_path bytes w)) (\<lambda>_.
          bindS (\<lambda>w. (send_file w output_path (''mesh_'' @ file_id @ ''.'' @ output_ext), w))
            (\<lambda>resp.
            ret (set_header ''X-Processing-Time'' (PFloat (tm_processing_time st))
                  (set_header ''X-Num-Triangles'' (PInt (int (tm_num_triangles st)))
                    (set_header ''X-Num-Vertices'' (PInt (int (tm_num_vertices st)))
                      resp))))))))))"

definition tm_create_mesh ::
  "pyenv \<Rightarrow> ('pc, 'mesh) trimesh \<Rightarrow> request \<Rightarrow> world \<Rightarrow> response \<times> world" where
  "tm_create_mesh env lib req = handle (tm_create_mesh_body env lib req)"

text \<open>
  \<^verbatim>\<open>get_mesh_stats\<close>, lines 258 to 299. \<^verbatim>\<open>range(0, n, step)\<close> visits the
  multiples of the step below \<open>n\<close>; the step is \<^verbatim>\<open>max(1, n // sample_size)\<close>, and the
  division raises when there is no point.
\<close>

definition sample_indices :: "nat \<Rightarrow> exn + nat list" where
  "sample_indices n =
     (let sample_size = min 100 n in
      if sample_size = 0
      then Inl (Exn ''ZeroDivisionError'' ''integer division or modulo by zero'')
      else Inr (filter (\<lambda>i. i mod (max 1 (n div sample_size)) = 0) [0..<n]))"

fun sample_distances ::
  "('pc, 'mesh) trimesh \<Rightarrow> vec3 list \<Rightarrow> nat list \<Rightarrow> exn + real list" where
  "sample_distances lib coords [] = Inr []"
| "sample_distances lib coords (i # rest) =
     bindE (nn_distance lib coords (coords ! i)) (\<lambda>d.
     bindE (sample_distances lib coords rest) (\<lambda>ds. Inr (d # ds)))"

definition tm_stats_input ::
  "pyenv \<Rightarrow> ('pc, 'mesh) trimesh \<Rightarrow> request \<Rightarrow> string \<Rightarrow> vec3 list io" where
  "tm_stats_input env lib req file_id =
     (if content_type req = Some ''application/json'' then
        bindS (lift (get_json req)) (\<lambda>json_data.
        bindS (lift (json_to_numpy env lib json_data)) (\<lambda>(coords, colors).
          ret coords))
      else
        (let input_path = ''uploads/'' @ file_id @ ''.ply'' in
         bindS (open_write env input_path (data req)) (\<lambda>_.
         bindS (\<lambda>w. (tm_load lib input_path (fs w input_path), w)) (\<lambda>point_cloud.
         bindS (lift (pc_vertices lib point_cloud)) (\<lambda>coords.
         bindS (os_remove env input_path) (\<lambda>_.
           ret coords))))))"

definition tm_get_mesh_stats_body ::
  "pyenv \<Rightarrow> ('pc, 'mesh) trimesh \<Rightarrow> request \<Rightarrow> response io" where
  "tm_get_mesh_stats_body env lib req =
     (let file_id = uuid4 env in
      bindS (tm_stats_input env lib req file_id) (\<lambda>coords.
      bindS (lift (ckdtree lib coords)) (\<lambda>_.
      bindS (lift (sample_indices (length coords))) (\<lambda>idx.
      bindS (lift (sample_distances lib coords idx)) (\<lambda>distances.
        let avg_dist = mean_distance lib distances in
        ret (Jsonify 200
          [(''num_points'', PInt (int (length coords))),
           (''avg_point_distance'', PFloat avg_dist),
           (''suggested_alpha'', PFloat (avg_dist * 1.5)),
           (''has_colors'', PBool True)]))))))"

definition tm_get_mesh_stats ::
  "pyenv \<Rightarrow> ('pc, 'mesh) trimesh \<Rightarrow> request \<Rightarrow> world \<Rightarrow> response \<times> world" where
  "tm_get_mesh_stats env lib req = handle (tm_get_mesh_stats_body env lib req)"


section \<open>Notions the properties are stated with\<close>

text \<open>The paths a request with identifier \<open>file_id\<close> uses in the two services.\<close>

definition upload_path :: "string \<Rightarrow> request \<Rightarrow> string" where
  "upload_path file_id req =
     (if content_type req = Some ''application/json'' then ''uploads/'' @ file_id @ ''.ply''
      else ''uploads/'' @ file_id @ ''.'' @ arg_str req ''input_format'' ''ply'')"

definition output_path :: "string \<Rightarrow> request \<Rightarrow> string" where
  "output_path file_id req =
     ''outputs/'' @ file_id @ ''.'' @
       (if arg_str req ''format'' ''ply'' = ''ply'' then ''ply'' else ''obj'')"

definition tm_upload_path :: "string \<Rightarrow> string" where
  "tm_upload_path file_id = ''uploads/'' @ file_id @ ''.ply''"

definition tm_output_path :: "string \<Rightarrow> request \<Rightarrow> string" where
  "tm_output_path file_id req =
     ''outputs/'' @ file_id @ ''.'' @ lower (arg_str req ''format'' ''ply'')"

text \<open>What one handler run added to the two ghost lists.\<close>

definition new_writes :: "world \<Rightarrow> world \<Rightarrow> string list" where
  "new_writes w w' = drop (length (written w)) (written w')"

definition new_calls :: "world \<Rightarrow> world \<Rightarrow> libcall list" where
  "new_calls w w' = drop (length (calls w)) (calls w')"

definition in_dir :: "string \<Rightarrow> string \<Rightarrow> bool" where
  "in_dir dir path = (take (length dir) path = dir)"

text \<open>
  A path is named by an identifier when it is \<^verbatim>\<open>uploads/<id>.<ext>\<close> or
  \<^verbatim>\<open>outputs/<id>.<ext>\<close>.
\<close>

definition named_by :: "string \<Rightarrow> string \<Rightarrow> bool" where
  "named_by file_id path =
     ((in_dir ''uploads/'' path \<or> in_dir ''outputs/'' path) \<and>
      take (length file_id + 1) (drop 8 path) = file_id @ ''.'')"

definition one_file_per_dir :: "string \<Rightarrow> string list \<Rightarrow> bool" where
  "one_file_per_dir file_id ws =
     (length (filter (in_dir ''uploads/'') ws) \<le> 1 \<and>
      length (filter (in_dir ''outputs/'') ws) \<le> 1 \<and>
      list_all (named_by file_id) ws)"

text \<open>A JSON object without points: the field is missing, null or an empty list.\<close>

definition no_points :: "(string \<times> json) list \<Rightarrow> bool" where
  "no_points kvs =
     (map_of kvs ''points'' = None \<or> map_of kvs ''points'' = Some JNull \<or>
      map_of kvs ''points'' = Some (JArr []))"

definition no_points_error :: exn where
  "no_points_error = Exn ''ValueError'' ''No points in JSON data''"

definition is_ball_pivoting :: "libcall \<Rightarrow> bool" where
  "is_ball_pivoting c = (case c of BallPivoting _ \<Rightarrow> True | _ \<Rightarrow> False)"

section \<open>A concrete library, for evaluating the handlers\<close>

text \<open>
  A point cloud is its number of points, a mesh its numbers of vertices and faces. A
  stored cloud has one point per byte. The alpha shape needs four points, the convex
  hull three; the exporter knows the formats ply, obj and stl.
\<close>

definition demo_id :: string where
  "demo_id = ''0f8fad5b-d9cb-469f-a165-70867728950e''"

definition other_id :: string where
  "other_id = ''7c9e6679-7425-40de-944b-e07fc1f90ae7''"

definition demo_env :: pyenv where
  "demo_env =
     \<lparr>uuid4 = demo_id,
      elapsed = 1 / 4,
      py_float = (\<lambda>s. if s = ''2'' then Inr 2
                       else if s = ''0.1'' then Inr (1 / 10)
                       else Inl (Exn ''ValueError''
                              (''could not convert string to float: '' @ quoted s))),
      py_int = (\<lambda>s. if s = ''3'' then Inr 3
                     else Inl (Exn ''ValueError''
                            (''invalid literal for int() with base 10: '' @ quoted s))),
      json_loads = (\<lambda>s. Inl (Exn ''JSONDecodeError'' ''Expecting value'')),
      open_error = (\<lambda>p. None),
      remove_error = (\<lambda>p. None)\<rparr>"

definition demo_o3d :: "(nat, nat \<times> nat) open3d" where
  "demo_o3d =
     \<lparr>make_point_cloud = (\<lambda>coords colors. Inr (length coords)),
      write_point_cloud = (\<lambda>path pcd. Inr (Some (replicate pcd CHR ''p''))),
      read_point_cloud = (\<lambda>path content. case content of None \<Rightarrow> Inr 0 | Some b \<Rightarrow> Inr (length b)),
      has_points = (\<lambda>pcd. 0 < pcd),
      num_points = (\<lambda>pcd. pcd),
      has_normals = (\<lambda>pcd. False),
      has_colors = (\<lambda>pcd. True),
      compute_nearest_neighbor_distance = (\<lambda>pcd. Inr [1 / 10, 3 / 10]),
      np_mean = (\<lambda>xs. if xs = [] then 0 else sum_list xs / real (length xs)),
      estimate_normals = (\<lambda>pcd r k. Inr pcd),
      orient_normals_consistent_tangent_plane = (\<lambda>pcd k. Inr pcd),
      create_from_point_cloud_ball_pivoting =
        (\<lambda>pcd radii. if radii = [] then Inl (Exn ''RuntimeError'' ''no radii'')
                      else Inr (pcd, pcd - 2)),
      has_triangles = (\<lambda>m. 0 < snd m),
      num_vertices = (\<lambda>m. fst m),
      num_triangles = (\<lambda>m. snd m),
      remove_duplicated_vertices = (\<lambda>m. Inr m),
      remove_duplicated_triangles = (\<lambda>m. Inr m),
      remove_degenerate_triangles = (\<lambda>m. Inr m),
      remove_unreferenced_vertices = (\<lambda>m. Inr m),
      compute_vertex_normals = (\<lambda>m. Inr m),
      write_triangle_mesh = (\<lambda>path m. Inr (Some (replicate (snd m) CHR ''t'')))\<rparr>"

definition has_suffix :: "string \<Rightarrow> string \<Rightarrow> bool" where
  "has_suffix suf s = (drop (length s - length suf) s = suf)"

definition demo_trimesh :: "(nat, nat \<times> nat) trimesh" where
  "demo_trimesh =
     \<lparr>np_array_coords = (\<lambda>rows. Inr (map (\<lambda>r. (0, 0, 1)) rows)),
      np_array_uint8 = (\<lambda>rows. Inr (map (\<lambda>r. (128, 128, 128)) rows)),
      tm_load = (\<lambda>path content.
                  case content of
                    None \<Rightarrow> Inl (Exn ''ValueError'' ''file does not exist'')
                  | Some b \<Rightarrow> if b = [] then Inl (Exn ''ValueError'' ''empty file'')
                              else Inr (length b)),
      pc_vertices = (\<lambda>pc. Inr (replicate pc (0, 0, 1))),
      pc_colors = (\<lambda>pc. None),
      point_cloud_ctor = (\<lambda>coords. Inr ()),
      ckdtree = (\<lambda>coords. Inr ()),
      pca_normal = (\<lambda>coords point k. Inr (0, 0, 1)),
      alpha_shape = (\<lambda>coords alpha.
                      if length coords < 4 then Inl (Exn ''QhullError'' ''too few points'')
                      else Inr (Some (length coords, 2 * length coords))),
      convex_hull = (\<lambda>coords.
                      if length coords < 3 then Inl (Exn ''QhullError'' ''too few points'')
                      else Inr (length coords, 1)),
      mesh_vertices = (\<lambda>m. replicate (fst m) (0, 0, 1)),
      num_faces = (\<lambda>m. snd m),
      nearest_indices = (\<lambda>coords vs. Inr (map (\<lambda>v. 0) vs)),
      set_vertex_colors = (\<lambda>m colors. Inr m),
      merge_vertices = (\<lambda>m. Inr m),
      remove_degenerate_faces = (\<lambda>m. Inr m),
      remove_unreferenced = (\<lambda>m. Inr m),
      fix_normals = (\<lambda>m. Inr m),
      export = (\<lambda>path m.
                 if has_suffix ''.ply'' path \<or> has_suffix ''.obj'' path \<or> has_suffix ''.stl'' path
                 then Inr (replicate (snd m) CHR ''f'')
                 else Inl (Exn ''ValueError'' ''unsupported export type'')),
      nn_distance = (\<lambda>coords point. Inr (1 / 10)),
      mean_distance = (\<lambda>xs. if xs = [] then 0 else sum_list xs / real (length xs))\<rparr>"

definition world0 :: world where
  "world0 = \<lparr>fs = (\<lambda>p. None), written = [], calls = []\<rparr>"

text \<open>A binary upload of four bytes, with the query string \<open>qs\<close>.\<close>

definition binary_request :: "(string \<times> string) list \<Rightarrow> string \<Rightarrow> request" where
  "binary_request qs bytes =
     \<lparr>args = qs, content_type = Some ''application/octet-stream'', data = bytes,
      get_json = Inl (Exn ''BadRequest'' ''400 Bad Request'')\<rparr>"

definition json_request :: "(string \<times> string) list \<Rightarrow> json \<Rightarrow> request" where
  "json_request qs j =
     \<lparr>args = qs, content_type = Some ''application/json'', data = [], get_json = Inr j\<rparr>"


section \<open>Reasoning about the monad\<close>

lemma bindS_Inr:
  "bindS m f w = (Inr y, w2) \<longleftrightarrow> (\<exists>x w1. m w = (Inr x, w1) \<and> f x w1 = (Inr y, w2))"
  by (auto simp: bindS_def split: prod.splits sum.splits)

lemma bindS_Inl:
  "bindS m f w = (Inl e, w2) \<longleftrightarrow>
     (m w = (Inl e, w2) \<or> (\<exists>x w1. m w = (Inr x, w1) \<and> f x w1 = (Inl e, w2)))"
  by (auto simp: bindS_def split: prod.splits sum.splits)

lemma lift_eq: "lift r w = (r', w') \<longleftrightarrow> r = r' \<and> w' = w"
  by (auto simp: lift_def)

lemma ret_eq: "ret x w = (r, w') \<longleftrightarrow> r = Inr x \<and> w' = w"
  by (auto simp: ret_def)

lemma raise_eq: "raise e w = (r, w') \<longleftrightarrow> r = Inl e \<and> w' = w"
  by (auto simp: raise_def)

lemmas io_simps = bindS_Inr bindS_Inl lift_eq ret_eq raise_eq

lemma bindS_raise: "m w = (Inl e, w') \<Longrightarrow> bindS m f w = (Inl e, w')"
  by (simp add: bindS_def)

lemma bindS_step: "m w = (Inr x, w') \<Longrightarrow> bindS m f w = f x w'"
  by (simp add: bindS_def)

lemma handle_raise: "m w = (Inl e, w') \<Longrightarrow> handle m w = (json_error e, w')"
  by (simp add: handle_def)

lemma handle_return: "m w = (Inr r, w') \<Longrightarrow> handle m w = (r, w')"
  by (simp add: handle_def)


section \<open>The ball radii\<close>

lemma foldl_snoc_map: "foldl (\<lambda>acc i. acc @ [f i]) acc xs = acc @ map f xs"
  by (induction xs arbitrary: acc) simp_all

lemma ball_radii_map:
  "ball_radii a m n = map (\<lambda>i. a * (m * (1 + of_int i * 0.5))) [0..n - 1]"
  by (simp add: ball_radii_def py_range_def foldl_snoc_map)





lemma ball_radii_neg: "n \<le> 0 \<Longrightarrow> ball_radii a m n = []"
  by (simp add: ball_radii_map)





section \<open>JSON bodies without points\<close>


lemma no_points_falsy:
  "no_points kvs \<Longrightarrow> \<exists>v. dict_get (JObj kvs) ''points'' (JArr []) = Inr v \<and> \<not> truthy v"
  by (auto simp: no_points_def dict_get_def truthy_def)

lemma json_to_ply_no_points:
  assumes "no_points kvs"
  shows "json_to_ply env lib (JObj kvs) path w = (Inl no_points_error, w)"
  using no_points_falsy [OF assms]
  by (auto simp: json_to_ply_def bindS_def lift_def raise_def no_points_error_def)

lemma json_to_numpy_no_points:
  assumes "no_points kvs"
  shows "json_to_numpy env lib (JObj kvs) = Inl no_points_error"
  using no_points_falsy [OF assms]
  by (auto simp: json_to_numpy_def bindE_def no_points_error_def)

lemma save_input_no_points:
  assumes "no_points kvs" "content_type req = Some ''application/json''"
    "get_json req = Inr (JObj kvs)"
  shows "save_input env lib req fid w = (Inl no_points_error, w)"
  using assms(2,3)
  by (simp add: save_input_def Let_def bindS_def lift_def json_to_ply_no_points [OF assms(1)])

lemma get_mesh_stats_no_points:
  assumes "no_points kvs" "content_type req = Some ''application/json''"
    "get_json req = Inr (JObj kvs)"
  shows "get_mesh_stats env lib req w = (json_error no_points_error, w)"
  unfolding get_mesh_stats_def get_mesh_stats_body_def Let_def
  by (rule handle_raise, rule bindS_raise, rule save_input_no_points [OF assms])

lemma create_mesh_no_points:
  assumes "no_points kvs" "content_type req = Some ''application/json''"
    "get_json req = Inr (JObj kvs)"
  shows "create_mesh env lib req w =
     (json_error (case arg_float env req ''radius_multiplier'' 1.5 of
                    Inl e \<Rightarrow> e
                  | Inr rm \<Rightarrow> (case arg_int env req ''num_radii'' 2 of
                                 Inl e \<Rightarrow> e | Inr n \<Rightarrow> no_points_error)), w)"
  unfolding create_mesh_def create_mesh_body_def Let_def
  by (auto simp: handle_def bindS_def lift_def save_input_no_points [OF assms]
      split: sum.splits)

lemma tm_parse_input_no_points:
  assumes "no_points kvs" "content_type req = Some ''application/json''"
    "get_json req = Inr (JObj kvs)"
  shows "tm_parse_input env lib req fid w = (Inl no_points_error, w)"
  using assms(2,3)
  by (simp add: tm_parse_input_def bindS_def lift_def json_to_numpy_no_points [OF assms(1)])

lemma tm_stats_input_no_points:
  assumes "no_points kvs" "content_type req = Some ''application/json''"
    "get_json req = Inr (JObj kvs)"
  shows "tm_stats_input env lib req fid w = (Inl no_points_error, w)"
  using assms(2,3)
  by (simp add: tm_stats_input_def bindS_def lift_def json_to_numpy_no_points [OF assms(1)])

lemma tm_get_mesh_stats_no_points:
  assumes "no_points kvs" "content_type req = Some ''application/json''"
    "get_json req = Inr (JObj kvs)"
  shows "tm_get_mesh_stats env lib req w = (json_error no_points_error, w)"
  unfolding tm_get_mesh_stats_def tm_get_mesh_stats_body_def Let_def
  by (rule handle_raise, rule bindS_raise, rule tm_stats_input_no_points [OF assms])

lemma tm_create_mesh_no_points:
  assumes "no_points kvs" "content_type req = Some ''application/json''"
    "get_json req = Inr (JObj kvs)"
  shows "tm_create_mesh env lib req w =
     (json_error (case tm_alpha env req of Inl e \<Rightarrow> e | Inr a \<Rightarrow> no_points_error), w)"
  unfolding tm_create_mesh_def tm_create_mesh_body_def Let_def
  by (auto simp: handle_def bindS_def lift_def tm_parse_input_no_points [OF assms]
      split: sum.splits)


text \<open>
  C8. When the \<^verbatim>\<open>points\<close> field of a JSON body is missing, null or an empty list,
  the conversion (\<^verbatim>\<open>json_to_ply\<close>, \<^verbatim>\<open>json_to_numpy\<close>) raises ValueError with the
  message \<^verbatim>\<open>No points in JSON data\<close> and leaves the world as it was, so no file is
  written; each of the four handlers answers with the JSON error response, and with
  this very error once the query parameters have parsed.
\<close>

theorem no_points_rejected:
  assumes "no_points kvs" and "content_type req = Some ''application/json''"
    and "get_json req = Inr (JObj kvs)"
  shows "json_to_ply env lib (JObj kvs) path w = (Inl no_points_error, w) \<and>
         json_to_numpy env tlib (JObj kvs) = Inl no_points_error \<and>
         get_mesh_stats env lib req w = (json_error no_points_error, w) \<and>
         tm_get_mesh_stats env tlib req w = (json_error no_points_error, w) \<and>
         (\<exists>e. create_mesh env lib req w = (json_error e, w)) \<and>
         (\<exists>e. tm_create_mesh env tlib req w = (json_error e, w)) \<and>
         ((\<exists>rm n. arg_float env req ''radius_multiplier'' 1.5 = Inr rm \<and>
                  arg_int env req ''num_radii'' 2 = Inr n) \<longrightarrow>
            create_mesh env lib req w = (json_error no_points_error, w)) \<and>
         ((\<exists>a. tm_alpha env req = Inr a) \<longrightarrow>
            tm_create_mesh env tlib req w = (json_error no_points_error, w))"
  using json_to_ply_no_points [OF assms(1)] json_to_numpy_no_points [OF assms(1)]
    get_mesh_stats_no_points [OF assms] tm_get_mesh_stats_no_points [OF assms]
    create_mesh_no_points [OF assms, of env lib w]
    tm_create_mesh_no_points [OF assms, of env tlib w]
  by auto

theorem no_points_rejected_witness:
  "no_points [(''count'', JInt 0)] \<and>
   json_to_ply demo_env demo_o3d (JObj [(''count'', JInt 0)]) ''uploads/x.ply'' world0
     = (Inl no_points_error, world0) \<and>
   json_to_numpy demo_env demo_trimesh (JObj [(''count'', JInt 0)]) = Inl no_points_error \<and>
   get_mesh_stats demo_env demo_o3d (json_request [] (JObj [(''count'', JInt 0)])) world0
     = (json_error no_points_error, world0) \<and>
   tm_get_mesh_stats demo_env demo_trimesh (json_request [] (JObj [(''count'', JInt 0)])) world0
     = (json_error no_points_error, world0) \<and>
   create_mesh demo_env demo_o3d (json_request [] (JObj [(''count'', JInt 0)])) world0
     = (json_error no_points_error, world0) \<and>
   tm_create_mesh demo_env demo_trimesh (json_request [] (JObj [(''count'', JInt 0)])) world0
     = (json_error no_points_error, world0) \<and>
   json_error no_points_error =
     Jsonify 500 [(''error'', PStr ''No points in JSON data''), (''type'', PStr ''ValueError'')]"
proof -
  let ?kvs = "[(''count'', JInt 0)]"
  let ?req = "json_request [] (JObj ?kvs)"
  have h1: "no_points ?kvs"
    by (simp add: no_points_def)
  have h2: "content_type ?req = Some ''application/json''"
    by (simp add: json_request_def)
  have h3: "get_json ?req = Inr (JObj ?kvs)"
    by (simp add: json_request_def)
  have "arg_float demo_env ?req ''radius_multiplier'' 1.5 = Inr 1.5"
    and "arg_int demo_env ?req ''num_radii'' 2 = Inr 2"
    by (simp_all add: arg_float_def arg_int_def json_request_def)
  then have p1: "\<exists>rm n. arg_float demo_env ?req ''radius_multiplier'' 1.5 = Inr rm \<and>
                  arg_int demo_env ?req ''num_radii'' 2 = Inr n"
    by blast
  have "tm_alpha demo_env ?req = Inr 0.05"
    by (simp add: tm_alpha_def arg_float_def json_request_def bindE_def)
  then have p2: "\<exists>a. tm_alpha demo_env ?req = Inr a"
    by blast
  have e: "json_error no_points_error =
     Jsonify 500 [(''error'', PStr ''No points in JSON data''), (''type'', PStr ''ValueError'')]"
    by (simp add: json_error_def no_points_error_def)
  from no_points_rejected [OF h1 h2 h3, of demo_env demo_o3d "''uploads/x.ply''" world0 demo_trimesh]
    h1 p1 p2 e
  show ?thesis by blast
qed


section \<open>Colour normalisation in json_to_ply\<close>












section \<open>Effects of the steps of the handlers\<close>

text \<open>
  For each step: what it may return, and what it does to the files, to the list of
  written paths and to the list of reconstruction calls.
\<close>

lemma write_file_simps [simp]:
  "written (write_file p b w) = written w @ [p]"
  "calls (write_file p b w) = calls w"
  "fs (write_file p b w) = (fs w)(p \<mapsto> b)"
  by (simp_all add: write_file_def)

lemma log_call_simps [simp]:
  "written (log_call c w) = written w"
  "calls (log_call c w) = calls w @ [c]"
  "fs (log_call c w) = fs w"
  by (simp_all add: log_call_def)

lemma json_to_ply_effect:
  assumes "json_to_ply env lib j p w = (r, w')"
  shows "calls w' = calls w \<and>
         ((w' = w) \<or> (r = Inr () \<and> (\<exists>b. written w' = written w @ [p] \<and> fs w' = (fs w)(p \<mapsto> b))))"
  using assms unfolding json_to_ply_def
  by (cases r) (fastforce simp: io_simps split: if_splits option.splits prod.splits)+

lemma save_input_effect:
  assumes "save_input env lib req fid w = (r, w')"
  shows "calls w' = calls w \<and>
         (\<forall>p. r = Inr p \<longrightarrow> p = upload_path fid req) \<and>
         ((w' = w) \<or>
          (r = Inr (upload_path fid req) \<and>
           (\<exists>b. written w' = written w @ [upload_path fid req] \<and>
                fs w' = (fs w)(upload_path fid req \<mapsto> b))))"
  using assms unfolding save_input_def Let_def upload_path_def
  by (cases r)
     (fastforce simp: io_simps open_write_def dest!: json_to_ply_effect
        split: if_splits option.splits)+

lemma reconstruct_effect:
  assumes "reconstruct_mesh_ball_pivoting env lib ip out (Some prm) w = (r, w')"
  shows "(\<exists>e. r = Inl e \<and> fs w' = fs w \<and> written w' = written w \<and>
            (calls w' = calls w \<or>
             (\<exists>avg. calls w' = calls w @
                [BallPivoting (ball_radii avg (get_default (radius_multiplier prm) 1.5)
                   (get_default (num_radii prm) 2))]))) \<or>
         (\<exists>st b mesh avg. r = Inr st \<and>
            fs w' = (fs w)(out \<mapsto> b) \<and> written w' = written w @ [out] \<and>
            calls w' = calls w @
                [BallPivoting (ball_radii avg (get_default (radius_multiplier prm) 1.5)
                   (get_default (num_radii prm) 2))] \<and>
            write_triangle_mesh lib out mesh = Inr (Some b) \<and>
            stat_num_vertices st = num_vertices lib mesh \<and>
            stat_num_triangles st = num_triangles lib mesh \<and>
            processing_time st = elapsed env)"
  using assms unfolding reconstruct_mesh_ball_pivoting_def Let_def
  by (cases r) (fastforce simp: io_simps split: if_splits option.splits)+

lemma try_remove_effect:
  assumes "try_pass (os_remove env p) w = (r, w')"
  shows "r = Inr () \<and> written w' = written w \<and> calls w' = calls w \<and>
         (\<forall>q. q \<noteq> p \<longrightarrow> fs w' q = fs w q) \<and>
         (remove_error env p = None \<longrightarrow> fs w' p = None)"
  using assms
  by (auto simp: try_pass_def os_remove_def split: option.splits prod.splits)


lemma paths_differ [simp]:
  "upload_path fid req \<noteq> output_path fid' req'"
  "output_path fid' req' \<noteq> upload_path fid req"
  by (auto simp: upload_path_def output_path_def)

lemma create_mesh_body_trace:
  assumes "create_mesh_body env lib req w = (r, w')"
  shows "\<exists>ws cs. written w' = written w @ ws \<and> calls w' = calls w @ cs \<and>
           (ws = [] \<or> ws = [upload_path (uuid4 env) req] \<or>
            ws = [output_path (uuid4 env) req] \<or>
            ws = [upload_path (uuid4 env) req, output_path (uuid4 env) req]) \<and>
           (cs = [] \<or>
            (\<exists>avg rm n. arg_float env req ''radius_multiplier'' 1.5 = Inr rm \<and>
               arg_int env req ''num_radii'' 2 = Inr n \<and>
               cs = [BallPivoting (ball_radii avg rm n)]))"
  using assms unfolding create_mesh_body_def Let_def output_path_def [symmetric]
  apply (cases r)
   apply (simp_all add: io_simps)
   apply (elim disjE exE conjE)
  apply (auto dest!: save_input_effect reconstruct_effect try_remove_effect simp: get_default_def)
  done



lemma set_header_SendFile [simp]:
  "set_header k v (SendFile b m n hs) = SendFile b m n (hs @ [(k, v)])"
  by (simp add: set_header_def)


lemma get_mesh_stats_body_trace:
  assumes "get_mesh_stats_body env lib req w = (r, w')"
  shows "calls w' = calls w \<and>
         (written w' = written w \<or> written w' = written w @ [upload_path (uuid4 env) req]) \<and>
         ((\<exists>resp. r = Inr resp) \<and> remove_error env (upload_path (uuid4 env) req) = None \<longrightarrow>
            fs w' (upload_path (uuid4 env) req) = None)"
  using assms unfolding get_mesh_stats_body_def Let_def
  apply (cases r)
   apply (simp_all add: io_simps)
   apply (elim disjE exE conjE)
  apply (auto dest!: save_input_effect try_remove_effect)
  done

lemma tm_paths_differ [simp]:
  "tm_upload_path fid \<noteq> tm_output_path fid' req'"
  "tm_output_path fid' req' \<noteq> tm_upload_path fid"
  by (auto simp: tm_upload_path_def tm_output_path_def)

lemma os_remove_effect:
  assumes "os_remove env p w = (r, w')"
  shows "written w' = written w \<and> calls w' = calls w \<and>
         ((\<exists>e. r = Inl e \<and> w' = w) \<or>
          (r = Inr () \<and> fs w' = (fs w)(p := None)))"
  using assms
  by (auto simp: os_remove_def split: option.splits)

lemma tm_parse_input_effect:
  assumes "tm_parse_input env lib req fid w = (r, w')"
  shows "calls w' = calls w \<and>
         (w' = w \<or>
          (written w' = written w @ [tm_upload_path fid] \<and>
           ((\<exists>x. r = Inr x) \<longrightarrow> fs w' = (fs w)(tm_upload_path fid := None)) \<and>
           (\<forall>q. q \<noteq> tm_upload_path fid \<longrightarrow> fs w' q = fs w q)))"
  using assms unfolding tm_parse_input_def Let_def tm_upload_path_def [symmetric]
  apply (cases r)
   apply (simp_all add: io_simps open_write_def split: if_splits option.splits)
   apply (elim disjE exE conjE)
  apply (auto dest!: os_remove_effect)
  done

lemma tm_stats_input_effect:
  assumes "tm_stats_input env lib req fid w = (r, w')"
  shows "calls w' = calls w \<and>
         (w' = w \<or>
          (written w' = written w @ [tm_upload_path fid] \<and>
           ((\<exists>x. r = Inr x) \<longrightarrow> fs w' = (fs w)(tm_upload_path fid := None)) \<and>
           (\<forall>q. q \<noteq> tm_upload_path fid \<longrightarrow> fs w' q = fs w q)))"
  using assms unfolding tm_stats_input_def Let_def tm_upload_path_def [symmetric]
  apply (cases r)
   apply (simp_all add: io_simps open_write_def split: if_splits option.splits prod.splits)
   apply (elim disjE exE conjE)
  apply (auto dest!: os_remove_effect)
  done

lemma surface_mesh_effect:
  assumes "surface_mesh lib coords a w = (r, w')"
  shows "fs w' = fs w \<and> written w' = written w \<and>
         ((calls w' = calls w @ [AlphaShape a] \<and>
           (\<exists>m. r = Inr m \<and> alpha_shape lib coords a = Inr (Some m) \<and> num_faces lib m \<noteq> 0)) \<or>
          (calls w' = calls w @ [AlphaShape a, ConvexHull] \<and> r = convex_hull lib coords \<and>
           (\<forall>m. alpha_shape lib coords a = Inr (Some m) \<longrightarrow> num_faces lib m = 0)))"
  using assms
  by (auto simp: surface_mesh_def Let_def split: sum.splits option.splits if_splits)

lemma reconstruct_alpha_effect:
  assumes "reconstruct_mesh_alpha_shape env lib coords colors a w = (r, w')"
  shows "fs w' = fs w \<and> written w' = written w \<and>
         (calls w' = calls w \<or> calls w' = calls w @ [AlphaShape a] \<or>
          calls w' = calls w @ [AlphaShape a, ConvexHull]) \<and>
         (\<forall>mesh st. r = Inr (mesh, st) \<longrightarrow>
            tm_num_vertices st = length (mesh_vertices lib mesh) \<and>
            tm_num_triangles st = num_faces lib mesh \<and>
            tm_processing_time st = elapsed env \<and> alpha_used st = a)"
  using assms unfolding reconstruct_mesh_alpha_shape_def Let_def
  apply (cases r)
   apply (simp_all add: io_simps)
   apply (elim disjE exE conjE)
  apply (auto dest!: surface_mesh_effect)
  done


section \<open>What one request writes and calls\<close>

lemma snd_handle: "snd (handle m w) = snd (m w)"
  by (simp add: handle_def split: prod.splits sum.splits)

lemma new_writes_append: "written w' = written w @ ws \<Longrightarrow> new_writes w w' = ws"
  by (simp add: new_writes_def)

lemma new_calls_append: "calls w' = calls w @ cs \<Longrightarrow> new_calls w w' = cs"
  by (simp add: new_calls_def)

lemma in_dir_paths [simp]:
  "in_dir ''uploads/'' (upload_path fid req)"
  "\<not> in_dir ''outputs/'' (upload_path fid req)"
  "\<not> in_dir ''uploads/'' (output_path fid req)"
  "in_dir ''outputs/'' (output_path fid req)"
  "in_dir ''uploads/'' (tm_upload_path fid)"
  "\<not> in_dir ''outputs/'' (tm_upload_path fid)"
  "\<not> in_dir ''uploads/'' (tm_output_path fid req)"
  "in_dir ''outputs/'' (tm_output_path fid req)"
  by (simp_all add: in_dir_def upload_path_def output_path_def tm_upload_path_def
        tm_output_path_def)

lemma named_by_paths [simp]:
  "named_by fid (upload_path fid req)"
  "named_by fid (output_path fid req)"
  "named_by fid (tm_upload_path fid)"
  "named_by fid (tm_output_path fid req)"
  by (simp_all add: named_by_def in_dir_def upload_path_def output_path_def tm_upload_path_def
        tm_output_path_def)

lemma named_by_unique:
  assumes "named_by id1 p" "named_by id2 p" "length id1 = length id2"
  shows "id1 = id2"
proof -
  from assms have "id1 @ ''.'' = id2 @ ''.''"
    by (simp add: named_by_def)
  then show ?thesis by simp
qed

lemma one_file_per_dir_disjoint:
  assumes "one_file_per_dir id1 ws1" "one_file_per_dir id2 ws2"
    "length id1 = length id2" "id1 \<noteq> id2"
  shows "set ws1 \<inter> set ws2 = {}"
proof (rule ccontr)
  assume "set ws1 \<inter> set ws2 \<noteq> {}"
  then obtain p where "p \<in> set ws1" "p \<in> set ws2" by blast
  with assms(1,2) have "named_by id1 p" "named_by id2 p"
    by (auto simp: one_file_per_dir_def list_all_iff)
  from named_by_unique [OF this assms(3)] assms(4) show False by simp
qed

lemma tm_create_mesh_body_trace:
  assumes "tm_create_mesh_body env lib req w = (r, w')"
  shows "\<exists>ws cs. written w' = written w @ ws \<and> calls w' = calls w @ cs \<and>
           (ws = [] \<or> ws = [tm_upload_path (uuid4 env)] \<or>
            ws = [tm_output_path (uuid4 env) req] \<or>
            ws = [tm_upload_path (uuid4 env), tm_output_path (uuid4 env) req]) \<and>
           (cs = [] \<or>
            (\<exists>a. tm_alpha env req = Inr a \<and>
               (cs = [AlphaShape a] \<or> cs = [AlphaShape a, ConvexHull])))"
  using assms unfolding tm_create_mesh_body_def Let_def tm_output_path_def [symmetric]
  apply (cases r)
   apply (simp_all add: io_simps split: prod.splits)
   apply (elim disjE exE conjE)
  apply (auto dest!: tm_parse_input_effect reconstruct_alpha_effect)
  done


lemma tm_get_mesh_stats_body_trace:
  assumes "tm_get_mesh_stats_body env lib req w = (r, w')"
  shows "calls w' = calls w \<and>
         (written w' = written w \<or>
          (written w' = written w @ [tm_upload_path (uuid4 env)] \<and>
           ((\<exists>resp. r = Inr resp) \<longrightarrow> fs w' (tm_upload_path (uuid4 env)) = None)))"
  using assms unfolding tm_get_mesh_stats_body_def Let_def
  apply (cases r)
   apply (simp_all add: io_simps)
   apply (elim disjE exE conjE)
  apply (auto dest!: tm_stats_input_effect)
  done


section \<open>One file per request and directory\<close>

lemma one_file_cases:
  assumes "in_dir ''uploads/'' up" "\<not> in_dir ''outputs/'' up"
    "\<not> in_dir ''uploads/'' out" "in_dir ''outputs/'' out"
    "named_by fid up" "named_by fid out"
    "ws = [] \<or> ws = [up] \<or> ws = [out] \<or> ws = [up, out]"
  shows "one_file_per_dir fid ws"
  using assms by (auto simp: one_file_per_dir_def)

lemma create_mesh_writes:
  "written (snd (create_mesh env lib req w)) =
     written w @ new_writes w (snd (create_mesh env lib req w)) \<and>
   one_file_per_dir (uuid4 env) (new_writes w (snd (create_mesh env lib req w)))"
proof -
  obtain r w' where body: "create_mesh_body env lib req w = (r, w')"
    by (cases "create_mesh_body env lib req w")
  then have w': "snd (create_mesh env lib req w) = w'"
    by (simp add: create_mesh_def snd_handle)
  from create_mesh_body_trace [OF body] obtain ws where
    ws: "written w' = written w @ ws"
      "ws = [] \<or> ws = [upload_path (uuid4 env) req] \<or> ws = [output_path (uuid4 env) req] \<or>
       ws = [upload_path (uuid4 env) req, output_path (uuid4 env) req]"
    by blast
  have "one_file_per_dir (uuid4 env) ws"
    by (rule one_file_cases [OF _ _ _ _ _ _ ws(2)]) simp_all
  with ws(1) show ?thesis
    by (simp add: w' new_writes_append)
qed

lemma get_mesh_stats_writes:
  "written (snd (get_mesh_stats env lib req w)) =
     written w @ new_writes w (snd (get_mesh_stats env lib req w)) \<and>
   one_file_per_dir (uuid4 env) (new_writes w (snd (get_mesh_stats env lib req w)))"
proof -
  obtain r w' where body: "get_mesh_stats_body env lib req w = (r, w')"
    by (cases "get_mesh_stats_body env lib req w")
  then have w': "snd (get_mesh_stats env lib req w) = w'"
    by (simp add: get_mesh_stats_def snd_handle)
  from get_mesh_stats_body_trace [OF body] obtain ws where
    ws: "written w' = written w @ ws" "ws = [] \<or> ws = [upload_path (uuid4 env) req]"
    by auto
  then have "one_file_per_dir (uuid4 env) ws"
    by (auto simp: one_file_per_dir_def)
  with ws(1) show ?thesis
    by (simp add: w' new_writes_append)
qed

lemma tm_create_mesh_writes:
  "written (snd (tm_create_mesh env lib req w)) =
     written w @ new_writes w (snd (tm_create_mesh env lib req w)) \<and>
   one_file_per_dir (uuid4 env) (new_writes w (snd (tm_create_mesh env lib req w)))"
proof -
  obtain r w' where body: "tm_create_mesh_body env lib req w = (r, w')"
    by (cases "tm_create_mesh_body env lib req w")
  then have w': "snd (tm_create_mesh env lib req w) = w'"
    by (simp add: tm_create_mesh_def snd_handle)
  from tm_create_mesh_body_trace [OF body] obtain ws where
    ws: "written w' = written w @ ws"
      "ws = [] \<or> ws = [tm_upload_path (uuid4 env)] \<or> ws = [tm_output_path (uuid4 env) req] \<or>
       ws = [tm_upload_path (uuid4 env), tm_output_path (uuid4 env) req]"
    by blast
  have "one_file_per_dir (uuid4 env) ws"
    by (rule one_file_cases [OF _ _ _ _ _ _ ws(2)]) simp_all
  with ws(1) show ?thesis
    by (simp add: w' new_writes_append)
qed

lemma tm_get_mesh_stats_writes:
  "written (snd (tm_get_mesh_stats env lib req w)) =
     written w @ new_writes w (snd (tm_get_mesh_stats env lib req w)) \<and>
   one_file_per_dir (uuid4 env) (new_writes w (snd (tm_get_mesh_stats env lib req w)))"
proof -
  obtain r w' where body: "tm_get_mesh_stats_body env lib req w = (r, w')"
    by (cases "tm_get_mesh_stats_body env lib req w")
  then have w': "snd (tm_get_mesh_stats env lib req w) = w'"
    by (simp add: tm_get_mesh_stats_def snd_handle)
  from tm_get_mesh_stats_body_trace [OF body] obtain ws where
    ws: "written w' = written w @ ws" "ws = [] \<or> ws = [tm_upload_path (uuid4 env)]"
    by auto
  then have "one_file_per_dir (uuid4 env) ws"
    by (auto simp: one_file_per_dir_def)
  with ws(1) show ?thesis
    by (simp add: w' new_writes_append)
qed

text \<open>
  C7. Every request, to any of the four handlers, writes at most one file under
  \<^verbatim>\<open>uploads/\<close> and at most one under \<^verbatim>\<open>outputs/\<close>, each named by the
  identifier drawn for the request (\<^verbatim>\<open>uploads/<id>.<ext>\<close>,
  \<^verbatim>\<open>outputs/<id>.<ext>\<close>); so two requests whose identifiers differ (both of the
  36 characters of a UUID string) never write the same path.
\<close>

theorem one_file_per_request:
  "one_file_per_dir (uuid4 env) (new_writes w (snd (create_mesh env lib req w))) \<and>
   one_file_per_dir (uuid4 env) (new_writes w (snd (get_mesh_stats env lib req w))) \<and>
   one_file_per_dir (uuid4 env) (new_writes w (snd (tm_create_mesh env tlib req w))) \<and>
   one_file_per_dir (uuid4 env) (new_writes w (snd (tm_get_mesh_stats env tlib req w))) \<and>
   written (snd (create_mesh env lib req w)) =
     written w @ new_writes w (snd (create_mesh env lib req w)) \<and>
   written (snd (get_mesh_stats env lib req w)) =
     written w @ new_writes w (snd (get_mesh_stats env lib req w)) \<and>
   written (snd (tm_create_mesh env tlib req w)) =
     written w @ new_writes w (snd (tm_create_mesh env tlib req w)) \<and>
   written (snd (tm_get_mesh_stats env tlib req w)) =
     written w @ new_writes w (snd (tm_get_mesh_stats env tlib req w)) \<and>
   (\<forall>id1 id2 ws1 ws2.
      one_file_per_dir id1 ws1 \<and> one_file_per_dir id2 ws2 \<and>
      length id1 = 36 \<and> length id2 = 36 \<and> id1 \<noteq> id2 \<longrightarrow> set ws1 \<inter> set ws2 = {})"
proof -
  have "\<forall>id1 id2 ws1 ws2.
      one_file_per_dir id1 ws1 \<and> one_file_per_dir id2 ws2 \<and>
      length id1 = 36 \<and> length id2 = 36 \<and> id1 \<noteq> id2 \<longrightarrow> set ws1 \<inter> set ws2 = {}"
    using one_file_per_dir_disjoint by (metis (no_types))
  with create_mesh_writes [of env lib req w] get_mesh_stats_writes [of env lib req w]
    tm_create_mesh_writes [of env tlib req w] tm_get_mesh_stats_writes [of env tlib req w]
  show ?thesis by (intro conjI) blast+
qed

theorem one_file_per_request_witness:
  "new_writes world0 (snd (create_mesh demo_env demo_o3d (binary_request [] ''abcd'') world0))
     = [''uploads/'' @ demo_id @ ''.ply'', ''outputs/'' @ demo_id @ ''.ply''] \<and>
   one_file_per_dir demo_id
     [''uploads/'' @ demo_id @ ''.ply'', ''outputs/'' @ demo_id @ ''.ply''] \<and>
   new_writes world0
     (snd (tm_create_mesh (demo_env\<lparr>uuid4 := other_id\<rparr>) demo_trimesh
             (binary_request [] ''abcd'') world0))
     = [''uploads/'' @ other_id @ ''.ply'', ''outputs/'' @ other_id @ ''.ply''] \<and>
   set [''uploads/'' @ demo_id @ ''.ply'', ''outputs/'' @ demo_id @ ''.ply''] \<inter>
   set [''uploads/'' @ other_id @ ''.ply'', ''outputs/'' @ other_id @ ''.ply''] = {}"
proof -
  let ?w1 = "snd (create_mesh demo_env demo_o3d (binary_request [] ''abcd'') world0)"
  let ?env2 = "demo_env\<lparr>uuid4 := other_id\<rparr>"
  let ?w2 = "snd (tm_create_mesh ?env2 demo_trimesh (binary_request [] ''abcd'') world0)"
  let ?ws1 = "[''uploads/'' @ demo_id @ ''.ply'', ''outputs/'' @ demo_id @ ''.ply'']"
  let ?ws2 = "[''uploads/'' @ other_id @ ''.ply'', ''outputs/'' @ other_id @ ''.ply'']"
  note spec1 = one_file_per_request [of demo_env world0 demo_o3d "binary_request [] ''abcd''"]
  note spec2 = one_file_per_request [of ?env2 world0 _ "binary_request [] ''abcd''" demo_trimesh]
  have n1: "new_writes world0 ?w1 = ?ws1"
    by code_simp
  have n2: "new_writes world0 ?w2 = ?ws2"
    by code_simp
  have ids: "uuid4 demo_env = demo_id" "uuid4 ?env2 = other_id"
    by (simp_all add: demo_env_def)
  have len: "length demo_id = 36" "length other_id = 36" "demo_id \<noteq> other_id"
    by (simp_all add: demo_id_def other_id_def)
  from spec1 have o1: "one_file_per_dir demo_id ?ws1"
    unfolding n1 ids by blast
  from spec2 have o2: "one_file_per_dir other_id ?ws2"
    unfolding n2 ids by blast
  from spec1 o1 o2 len have "set ?ws1 \<inter> set ?ws2 = {}"
    by blast
  with n1 n2 o1 show ?thesis
    by blast
qed


section \<open>Exceptions become JSON error responses\<close>

text \<open>
  C2. In both services, \<^verbatim>\<open>/mesh\<close> and \<^verbatim>\<open>/mesh/stats\<close>: when the body of the
  handler raises an exception, the response is the JSON object with the fields
  \<^verbatim>\<open>error\<close> (the message of the exception) and \<^verbatim>\<open>type\<close> (the name of its
  class), with status 500; otherwise it is the response of the body. A handler always
  returns a response: no exception leaves it.
\<close>

theorem handlers_catch_exceptions:
  "(\<forall>e w'. create_mesh_body env lib req w = (Inl e, w') \<longrightarrow>
      create_mesh env lib req w =
        (Jsonify 500 [(''error'', PStr (exn_msg e)), (''type'', PStr (exn_type e))], w')) \<and>
   (\<forall>e w'. get_mesh_stats_body env lib req w = (Inl e, w') \<longrightarrow>
      get_mesh_stats env lib req w =
        (Jsonify 500 [(''error'', PStr (exn_msg e)), (''type'', PStr (exn_type e))], w')) \<and>
   (\<forall>e w'. tm_create_mesh_body env tlib req w = (Inl e, w') \<longrightarrow>
      tm_create_mesh env tlib req w =
        (Jsonify 500 [(''error'', PStr (exn_msg e)), (''type'', PStr (exn_type e))], w')) \<and>
   (\<forall>e w'. tm_get_mesh_stats_body env tlib req w = (Inl e, w') \<longrightarrow>
      tm_get_mesh_stats env tlib req w =
        (Jsonify 500 [(''error'', PStr (exn_msg e)), (''type'', PStr (exn_type e))], w')) \<and>
   (\<forall>r w'. create_mesh_body env lib req w = (Inr r, w') \<longrightarrow>
      create_mesh env lib req w = (r, w')) \<and>
   (\<forall>r w'. get_mesh_stats_body env lib req w = (Inr r, w') \<longrightarrow>
      get_mesh_stats env lib req w = (r, w')) \<and>
   (\<forall>r w'. tm_create_mesh_body env tlib req w = (Inr r, w') \<longrightarrow>
      tm_create_mesh env tlib req w = (r, w')) \<and>
   (\<forall>r w'. tm_get_mesh_stats_body env tlib req w = (Inr r, w') \<longrightarrow>
      tm_get_mesh_stats env tlib req w = (r, w'))"
  by (simp add: create_mesh_def get_mesh_stats_def tm_create_mesh_def tm_get_mesh_stats_def
        handle_def json_error_def)

theorem handlers_catch_exceptions_witness:
  "create_mesh_body demo_env demo_o3d (binary_request [(''radius_multiplier'', ''abc'')] ''abcd'')
     world0
     = (Inl (Exn ''ValueError'' (''could not convert string to float: '' @ quoted ''abc'')),
        world0) \<and>
   create_mesh demo_env demo_o3d (binary_request [(''radius_multiplier'', ''abc'')] ''abcd'')
     world0
     = (Jsonify 500
          [(''error'', PStr (''could not convert string to float: '' @ quoted ''abc'')),
           (''type'', PStr ''ValueError'')], world0) \<and>
   fst (tm_get_mesh_stats_body demo_env demo_trimesh (binary_request [] []) world0)
     = Inl (Exn ''ValueError'' ''empty file'') \<and>
   fst (tm_get_mesh_stats demo_env demo_trimesh (binary_request [] []) world0)
     = Jsonify 500 [(''error'', PStr ''empty file''), (''type'', PStr ''ValueError'')]"
proof -
  let ?req = "binary_request [(''radius_multiplier'', ''abc'')] ''abcd''"
  let ?e = "Exn ''ValueError'' (''could not convert string to float: '' @ quoted ''abc'')"
  let ?req2 = "binary_request [] []"
  let ?b2 = "tm_get_mesh_stats_body demo_env demo_trimesh ?req2 world0"
  have b1: "create_mesh_body demo_env demo_o3d ?req world0 = (Inl ?e, world0)"
    by (simp add: create_mesh_body_def Let_def bindS_def lift_def arg_float_def
          binary_request_def demo_env_def)
  have f2: "fst ?b2 = Inl (Exn ''ValueError'' ''empty file'')"
    by code_simp
  then have b2: "?b2 = (Inl (Exn ''ValueError'' ''empty file''), snd ?b2)"
    by (simp add: prod_eq_iff)
  note spec1 = handlers_catch_exceptions [of demo_env demo_o3d ?req world0]
  note spec2 = handlers_catch_exceptions [of demo_env _ ?req2 world0 demo_trimesh]
  from spec1 b1 have r1: "create_mesh demo_env demo_o3d ?req world0 =
      (Jsonify 500 [(''error'', PStr (exn_msg ?e)), (''type'', PStr (exn_type ?e))], world0)"
    by blast
  from spec2 b2 have r2: "tm_get_mesh_stats demo_env demo_trimesh ?req2 world0 =
      (Jsonify 500 [(''error'', PStr (exn_msg (Exn ''ValueError'' ''empty file''))),
                    (''type'', PStr (exn_type (Exn ''ValueError'' ''empty file'')))], snd ?b2)"
    by blast
  from b1 r1 f2 r2 show ?thesis
    by simp
qed


section \<open>Upload files are deleted on success\<close>









section \<open>Reconstruction calls per request\<close>

lemma create_mesh_calls:
  "calls (snd (create_mesh env lib req w)) =
     calls w @ new_calls w (snd (create_mesh env lib req w)) \<and>
   (new_calls w (snd (create_mesh env lib req w)) = [] \<or>
    (\<exists>avg rm n. arg_float env req ''radius_multiplier'' 1.5 = Inr rm \<and>
       arg_int env req ''num_radii'' 2 = Inr n \<and>
       new_calls w (snd (create_mesh env lib req w)) = [BallPivoting (ball_radii avg rm n)]))"
proof -
  obtain r w' where body: "create_mesh_body env lib req w = (r, w')"
    by (cases "create_mesh_body env lib req w")
  then have w': "snd (create_mesh env lib req w) = w'"
    by (simp add: create_mesh_def snd_handle)
  from create_mesh_body_trace [OF body] obtain cs where
    cs: "calls w' = calls w @ cs"
      "cs = [] \<or> (\<exists>avg rm n. arg_float env req ''radius_multiplier'' 1.5 = Inr rm \<and>
               arg_int env req ''num_radii'' 2 = Inr n \<and>
               cs = [BallPivoting (ball_radii avg rm n)])"
    by blast
  from cs(1) have "new_calls w w' = cs"
    by (rule new_calls_append)
  with cs show ?thesis
    unfolding w' by simp
qed

lemma get_mesh_stats_calls: "new_calls w (snd (get_mesh_stats env lib req w)) = []"
proof -
  obtain r w' where body: "get_mesh_stats_body env lib req w = (r, w')"
    by (cases "get_mesh_stats_body env lib req w")
  then have w': "snd (get_mesh_stats env lib req w) = w'"
    by (simp add: get_mesh_stats_def snd_handle)
  from get_mesh_stats_body_trace [OF body] show ?thesis
    unfolding w' by (simp add: new_calls_def)
qed

lemma tm_create_mesh_calls:
  "calls (snd (tm_create_mesh env lib req w)) =
     calls w @ new_calls w (snd (tm_create_mesh env lib req w)) \<and>
   (new_calls w (snd (tm_create_mesh env lib req w)) = [] \<or>
    (\<exists>a. tm_alpha env req = Inr a \<and>
       (new_calls w (snd (tm_create_mesh env lib req w)) = [AlphaShape a] \<or>
        new_calls w (snd (tm_create_mesh env lib req w)) = [AlphaShape a, ConvexHull])))"
proof -
  obtain r w' where body: "tm_create_mesh_body env lib req w = (r, w')"
    by (cases "tm_create_mesh_body env lib req w")
  then have w': "snd (tm_create_mesh env lib req w) = w'"
    by (simp add: tm_create_mesh_def snd_handle)
  from tm_create_mesh_body_trace [OF body] obtain cs where
    cs: "calls w' = calls w @ cs"
      "cs = [] \<or> (\<exists>a. tm_alpha env req = Inr a \<and>
               (cs = [AlphaShape a] \<or> cs = [AlphaShape a, ConvexHull]))"
    by blast
  from cs(1) have "new_calls w w' = cs"
    by (rule new_calls_append)
  with cs show ?thesis
    unfolding w' by simp
qed

lemma tm_get_mesh_stats_calls: "new_calls w (snd (tm_get_mesh_stats env lib req w)) = []"
proof -
  obtain r w' where body: "tm_get_mesh_stats_body env lib req w = (r, w')"
    by (cases "tm_get_mesh_stats_body env lib req w")
  then have w': "snd (tm_get_mesh_stats env lib req w) = w'"
    by (simp add: tm_get_mesh_stats_def snd_handle)
  from tm_get_mesh_stats_body_trace [OF body] show ?thesis
    unfolding w' by (simp add: new_calls_def)
qed

lemma surface_mesh_calls:
  assumes "surface_mesh lib coords a w = (r, w1)"
  shows "(new_calls w w1 = [AlphaShape a] \<and>
          (\<exists>m. r = Inr m \<and> alpha_shape lib coords a = Inr (Some m) \<and> num_faces lib m \<noteq> 0)) \<or>
         (new_calls w w1 = [AlphaShape a, ConvexHull] \<and> r = convex_hull lib coords \<and>
          (\<forall>m. alpha_shape lib coords a = Inr (Some m) \<longrightarrow> num_faces lib m = 0))"
  using surface_mesh_effect [OF assms]
  by (auto simp: new_calls_def)

lemma ball_pivoting_failure:
  assumes "read_point_cloud lib ip (fs w ip) = Inr pcd0" "has_points lib pcd0"
    "normals_stage lib (get_default (estimate_normals_flag prm) True) (normal_radius prm)
       (get_default (normal_max_nn prm) 30) pcd0 = Inr pcd"
    "compute_nearest_neighbor_distance lib pcd = Inr ds"
    "radii = ball_radii (np_mean lib ds) (get_default (radius_multiplier prm) 1.5)
       (get_default (num_radii prm) 2)"
    "create_from_point_cloud_ball_pivoting lib pcd radii = Inl e \<or>
     (\<exists>m. create_from_point_cloud_ball_pivoting lib pcd radii = Inr m \<and>
        \<not> has_triangles lib m \<and>
        e = Exn ''ValueError'' ''Ball Pivoting failed to generate mesh!'')"
  shows "reconstruct_mesh_ball_pivoting env lib ip out (Some prm) w =
           (Inl e, log_call (BallPivoting radii) w)"
  using assms unfolding reconstruct_mesh_ball_pivoting_def Let_def
  by (auto simp: bindS_def lift_def raise_def)

text \<open>
  C5, as the code has it. In the Open3D service a request makes at most one
  reconstruction call, the ball pivoting, and \<^verbatim>\<open>/mesh/stats\<close> makes none: nothing
  is retried and nothing else is tried, and when the call raises or yields a mesh
  without triangles, \<^verbatim>\<open>reconstruct_mesh_ball_pivoting\<close> raises at once. In the trimesh service \<^verbatim>\<open>/mesh\<close> calls
  the alpha shape at most once and, when that call raises, returns no mesh or returns
  a mesh without faces, calls the convex hull once as a fallback, whose result
  (a mesh or an exception) is then the result of the step.
\<close>

theorem reconstruction_attempts:
  "length (new_calls w (snd (create_mesh env lib req w))) \<le> 1 \<and>
   list_all is_ball_pivoting (new_calls w (snd (create_mesh env lib req w))) \<and>
   new_calls w (snd (get_mesh_stats env lib req w)) = [] \<and>
   (new_calls w (snd (tm_create_mesh env tlib req w)) = [] \<or>
    (\<exists>a. tm_alpha env req = Inr a \<and>
       (new_calls w (snd (tm_create_mesh env tlib req w)) = [AlphaShape a] \<or>
        new_calls w (snd (tm_create_mesh env tlib req w)) = [AlphaShape a, ConvexHull]))) \<and>
   new_calls w (snd (tm_get_mesh_stats env tlib req w)) = [] \<and>
   (\<forall>coords a r w1. surface_mesh tlib coords a w = (r, w1) \<longrightarrow>
      (new_calls w w1 = [AlphaShape a] \<and>
       (\<exists>m. r = Inr m \<and> alpha_shape tlib coords a = Inr (Some m) \<and> num_faces tlib m \<noteq> 0)) \<or>
      (new_calls w w1 = [AlphaShape a, ConvexHull] \<and> r = convex_hull tlib coords \<and>
       (\<forall>m. alpha_shape tlib coords a = Inr (Some m) \<longrightarrow> num_faces tlib m = 0))) \<and>
   (\<forall>ip out prm pcd0 pcd ds radii e.
      read_point_cloud lib ip (fs w ip) = Inr pcd0 \<and> has_points lib pcd0 \<and>
      normals_stage lib (get_default (estimate_normals_flag prm) True) (normal_radius prm)
        (get_default (normal_max_nn prm) 30) pcd0 = Inr pcd \<and>
      compute_nearest_neighbor_distance lib pcd = Inr ds \<and>
      radii = ball_radii (np_mean lib ds) (get_default (radius_multiplier prm) 1.5)
        (get_default (num_radii prm) 2) \<and>
      (create_from_point_cloud_ball_pivoting lib pcd radii = Inl e \<or>
       (\<exists>m. create_from_point_cloud_ball_pivoting lib pcd radii = Inr m \<and>
          \<not> has_triangles lib m \<and>
          e = Exn ''ValueError'' ''Ball Pivoting failed to generate mesh!'')) \<longrightarrow>
      reconstruct_mesh_ball_pivoting env lib ip out (Some prm) w =
        (Inl e, log_call (BallPivoting radii) w))"
proof -
  have bp: "\<forall>ip out prm pcd0 pcd ds radii e.
      read_point_cloud lib ip (fs w ip) = Inr pcd0 \<and> has_points lib pcd0 \<and>
      normals_stage lib (get_default (estimate_normals_flag prm) True) (normal_radius prm)
        (get_default (normal_max_nn prm) 30) pcd0 = Inr pcd \<and>
      compute_nearest_neighbor_distance lib pcd = Inr ds \<and>
      radii = ball_radii (np_mean lib ds) (get_default (radius_multiplier prm) 1.5)
        (get_default (num_radii prm) 2) \<and>
      (create_from_point_cloud_ball_pivoting lib pcd radii = Inl e \<or>
       (\<exists>m. create_from_point_cloud_ball_pivoting lib pcd radii = Inr m \<and>
          \<not> has_triangles lib m \<and>
          e = Exn ''ValueError'' ''Ball Pivoting failed to generate mesh!'')) \<longrightarrow>
      reconstruct_mesh_ball_pivoting env lib ip out (Some prm) w =
        (Inl e, log_call (BallPivoting radii) w)"
    using ball_pivoting_failure [of lib _ w _ _ _ _ _ _ env] by blast
  have o3d: "length (new_calls w (snd (create_mesh env lib req w))) \<le> 1"
    "list_all is_ball_pivoting (new_calls w (snd (create_mesh env lib req w)))"
    using create_mesh_calls [of env lib req w] by (auto simp: is_ball_pivoting_def)
  have sm: "\<forall>coords a r w1. surface_mesh tlib coords a w = (r, w1) \<longrightarrow>
      (new_calls w w1 = [AlphaShape a] \<and>
       (\<exists>m. r = Inr m \<and> alpha_shape tlib coords a = Inr (Some m) \<and> num_faces tlib m \<noteq> 0)) \<or>
      (new_calls w w1 = [AlphaShape a, ConvexHull] \<and> r = convex_hull tlib coords \<and>
       (\<forall>m. alpha_shape tlib coords a = Inr (Some m) \<longrightarrow> num_faces tlib m = 0))"
    using surface_mesh_calls [of tlib _ _ w] by blast
  from o3d sm bp get_mesh_stats_calls [of w env lib req]
    tm_get_mesh_stats_calls [of w env tlib req] tm_create_mesh_calls [of env tlib req w]
  show ?thesis by (intro conjI) blast+
qed

theorem reconstruction_attempts_witness:
  "new_calls world0 (snd (create_mesh demo_env demo_o3d (binary_request [] ''ab'') world0))
     = [BallPivoting [3 / 10, 9 / 20]] \<and>
   fst (create_mesh demo_env demo_o3d (binary_request [] ''ab'') world0)
     = Jsonify 500 [(''error'', PStr ''Ball Pivoting failed to generate mesh!''),
                    (''type'', PStr ''ValueError'')] \<and>
   length (new_calls world0
     (snd (create_mesh demo_env demo_o3d (binary_request [] ''ab'') world0))) \<le> 1 \<and>
   new_calls world0 (snd (tm_create_mesh demo_env demo_trimesh (binary_request [] ''abcd'') world0))
     = [AlphaShape (1 / 20)]"
proof -
  let ?w1 = "snd (create_mesh demo_env demo_o3d (binary_request [] ''ab'') world0)"
  have c1: "new_calls world0 ?w1 = [BallPivoting [3 / 10, 9 / 20]]"
    by code_simp
  have r1: "fst (create_mesh demo_env demo_o3d (binary_request [] ''ab'') world0)
     = Jsonify 500 [(''error'', PStr ''Ball Pivoting failed to generate mesh!''),
                    (''type'', PStr ''ValueError'')]"
    by code_simp
  have c2: "new_calls world0
      (snd (tm_create_mesh demo_env demo_trimesh (binary_request [] ''abcd'') world0))
     = [AlphaShape (1 / 20)]"
    by code_simp
  from reconstruction_attempts [of world0 demo_env demo_o3d "binary_request [] ''ab''"]
  have "length (new_calls world0 ?w1) \<le> 1"
    by blast
  with c1 r1 c2 show ?thesis
    by blast
qed

theorem convex_hull_fallback_counterexample:
  "alpha_shape demo_trimesh (replicate 3 (0, 0, 1)) (1 / 20)
     = Inl (Exn ''QhullError'' ''too few points'') \<and>
   new_calls world0 (snd (tm_create_mesh demo_env demo_trimesh (binary_request [] ''abc'') world0))
     = [AlphaShape (1 / 20), ConvexHull] \<and>
   fst (tm_create_mesh demo_env demo_trimesh (binary_request [] ''abc'') world0)
     = SendFile ''f'' ''application/octet-stream'' (''mesh_'' @ demo_id @ ''.ply'')
         [(''X-Num-Vertices'', PInt 3), (''X-Num-Triangles'', PInt 1),
          (''X-Processing-Time'', PFloat (1 / 4))]"
  by code_simp


section \<open>Query parameters and the reconstruction call\<close>






section \<open>The response to a successful mesh request\<close>

lemma create_mesh_forward:
  assumes a1: "arg_float env req ''radius_multiplier'' 1.5 = Inr rm"
    and a2: "arg_int env req ''num_radii'' 2 = Inr n"
    and a3: "save_input env lib req (uuid4 env) w = (Inr ip, w1)"
    and a4: "reconstruct_mesh_ball_pivoting env lib ip (output_path (uuid4 env) req)
               (Some \<lparr>radius_multiplier = Some rm, num_radii = Some n,
                      estimate_normals_flag = Some True, normal_radius = None,
                      normal_max_nn = None\<rparr>) w1 = (Inr st, w2)"
  shows "\<exists>b mesh w'.
           create_mesh env lib req w =
             (SendFile b ''application/octet-stream''
                (''mesh_'' @ uuid4 env @ ''.'' @
                   (if arg_str req ''format'' ''ply'' = ''ply'' then ''ply'' else ''obj''))
                [(''X-Num-Vertices'', PInt (int (num_vertices lib mesh))),
                 (''X-Num-Triangles'', PInt (int (num_triangles lib mesh))),
                 (''X-Processing-Time'', PFloat (elapsed env))], w') \<and>
           write_triangle_mesh lib (output_path (uuid4 env) req) mesh = Inr (Some b) \<and>
           fs w2 (output_path (uuid4 env) req) = Some b \<and>
           fs w' (output_path (uuid4 env) req) = Some b"
proof -
  let ?out = "output_path (uuid4 env) req"
  let ?name = "''mesh_'' @ uuid4 env @ ''.'' @
                   (if arg_str req ''format'' ''ply'' = ''ply'' then ''ply'' else ''obj'')"
  from save_input_effect [OF a3] have ip: "ip = upload_path (uuid4 env) req"
    by simp
  from reconstruct_effect [OF a4] obtain b mesh where
    rec: "fs w2 ?out = Some b" "write_triangle_mesh lib ?out mesh = Inr (Some b)"
      "stat_num_vertices st = num_vertices lib mesh"
      "stat_num_triangles st = num_triangles lib mesh"
      "processing_time st = elapsed env"
    by auto
  obtain u w3 where rmv: "try_pass (os_remove env ip) w2 = (u, w3)"
    by (cases "try_pass (os_remove env ip) w2")
  from try_remove_effect [OF rmv] have u: "u = Inr ()"
    and keep: "fs w3 ?out = fs w2 ?out"
    unfolding ip by simp_all
  from keep rec(1) have sf: "send_file w3 ?out ?name =
      Inr (SendFile b ''application/octet-stream'' ?name [])"
    by (simp add: send_file_def)
  have "create_mesh_body env lib req w =
      (Inr (SendFile b ''application/octet-stream'' ?name
         [(''X-Num-Vertices'', PInt (int (num_vertices lib mesh))),
          (''X-Num-Triangles'', PInt (int (num_triangles lib mesh))),
          (''X-Processing-Time'', PFloat (elapsed env))]), w3)"
    unfolding create_mesh_body_def Let_def output_path_def [symmetric]
    using a1 a2 a3 a4 rmv u sf rec(3,4,5)
    by (simp add: bindS_def lift_def ret_def)
  then have "create_mesh env lib req w =
      (SendFile b ''application/octet-stream'' ?name
         [(''X-Num-Vertices'', PInt (int (num_vertices lib mesh))),
          (''X-Num-Triangles'', PInt (int (num_triangles lib mesh))),
          (''X-Processing-Time'', PFloat (elapsed env))], w3)"
    unfolding create_mesh_def by (rule handle_return)
  with rec(1,2) keep show ?thesis
    by auto
qed

lemma tm_create_mesh_forward:
  assumes a1: "tm_alpha env req = Inr a"
    and a2: "tm_parse_input env lib req (uuid4 env) w = (Inr (coords, colors), w1)"
    and a3: "reconstruct_mesh_alpha_shape env lib coords colors a w1 = (Inr (mesh, st), w2)"
    and a4: "export lib (tm_output_path (uuid4 env) req) mesh = Inr b"
  shows "\<exists>w'.
           tm_create_mesh env lib req w =
             (SendFile b ''application/octet-stream''
                (''mesh_'' @ uuid4 env @ ''.'' @ lower (arg_str req ''format'' ''ply''))
                [(''X-Num-Vertices'', PInt (int (length (mesh_vertices lib mesh)))),
                 (''X-Num-Triangles'', PInt (int (num_faces lib mesh))),
                 (''X-Processing-Time'', PFloat (elapsed env))], w') \<and>
           fs w' (tm_output_path (uuid4 env) req) = Some b"
proof -
  let ?out = "tm_output_path (uuid4 env) req"
  let ?name = "''mesh_'' @ uuid4 env @ ''.'' @ lower (arg_str req ''format'' ''ply'')"
  let ?w3 = "write_file ?out b w2"
  from reconstruct_alpha_effect [OF a3] have
    st: "tm_num_vertices st = length (mesh_vertices lib mesh)"
      "tm_num_triangles st = num_faces lib mesh"
      "tm_processing_time st = elapsed env"
    by simp_all
  have sf: "send_file ?w3 ?out ?name = Inr (SendFile b ''application/octet-stream'' ?name [])"
    by (simp add: send_file_def)
  have "tm_create_mesh_body env lib req w =
      (Inr (SendFile b ''application/octet-stream'' ?name
         [(''X-Num-Vertices'', PInt (int (length (mesh_vertices lib mesh)))),
          (''X-Num-Triangles'', PInt (int (num_faces lib mesh))),
          (''X-Processing-Time'', PFloat (elapsed env))]), ?w3)"
    unfolding tm_create_mesh_body_def Let_def tm_output_path_def [symmetric]
    using a1 a2 a3 a4 sf st
    by (simp add: bindS_def lift_def ret_def)
  then have "tm_create_mesh env lib req w =
      (SendFile b ''application/octet-stream'' ?name
         [(''X-Num-Vertices'', PInt (int (length (mesh_vertices lib mesh)))),
          (''X-Num-Triangles'', PInt (int (num_faces lib mesh))),
          (''X-Processing-Time'', PFloat (elapsed env))], ?w3)"
    unfolding tm_create_mesh_def by (rule handle_return)
  then show ?thesis
    by simp
qed


text \<open>
  C1, as the code has it. A \<^verbatim>\<open>/mesh\<close> request whose parameters parse, whose point
  cloud is taken in and whose mesh is reconstructed and saved without an exception is
  answered with the saved mesh file, and the headers \<^verbatim>\<open>X-Num-Vertices\<close>,
  \<^verbatim>\<open>X-Num-Triangles\<close> and \<^verbatim>\<open>X-Processing-Time\<close> carry the numbers of
  vertices and triangles of that mesh and the measured time. In the Open3D service the
  mesh is saved inside \<^verbatim>\<open>reconstruct_mesh_ball_pivoting\<close>; in the trimesh service
  it is saved by \<^verbatim>\<open>mesh.export\<close> after \<^verbatim>\<open>reconstruct_mesh_alpha_shape\<close> has
  returned, and that call must succeed as well.
\<close>

theorem create_mesh_returns_saved_mesh:
  "(\<forall>rm n ip w1 st w2.
      arg_float env req ''radius_multiplier'' 1.5 = Inr rm \<and>
      arg_int env req ''num_radii'' 2 = Inr n \<and>
      save_input env lib req (uuid4 env) w = (Inr ip, w1) \<and>
      reconstruct_mesh_ball_pivoting env lib ip (output_path (uuid4 env) req)
        (Some \<lparr>radius_multiplier = Some rm, num_radii = Some n,
               estimate_normals_flag = Some True, normal_radius = None,
               normal_max_nn = None\<rparr>) w1 = (Inr st, w2) \<longrightarrow>
      (\<exists>b mesh w'.
         create_mesh env lib req w =
           (SendFile b ''application/octet-stream''
              (''mesh_'' @ uuid4 env @ ''.'' @
                 (if arg_str req ''format'' ''ply'' = ''ply'' then ''ply'' else ''obj''))
              [(''X-Num-Vertices'', PInt (int (num_vertices lib mesh))),
               (''X-Num-Triangles'', PInt (int (num_triangles lib mesh))),
               (''X-Processing-Time'', PFloat (elapsed env))], w') \<and>
         write_triangle_mesh lib (output_path (uuid4 env) req) mesh = Inr (Some b) \<and>
         fs w2 (output_path (uuid4 env) req) = Some b \<and>
         fs w' (output_path (uuid4 env) req) = Some b)) \<and>
   (\<forall>a coords colors w1 mesh st w2 b.
      tm_alpha env req = Inr a \<and>
      tm_parse_input env tlib req (uuid4 env) w = (Inr (coords, colors), w1) \<and>
      reconstruct_mesh_alpha_shape env tlib coords colors a w1 = (Inr (mesh, st), w2) \<and>
      export tlib (tm_output_path (uuid4 env) req) mesh = Inr b \<longrightarrow>
      (\<exists>w'.
         tm_create_mesh env tlib req w =
           (SendFile b ''application/octet-stream''
              (''mesh_'' @ uuid4 env @ ''.'' @ lower (arg_str req ''format'' ''ply''))
              [(''X-Num-Vertices'', PInt (int (length (mesh_vertices tlib mesh)))),
               (''X-Num-Triangles'', PInt (int (num_faces tlib mesh))),
               (''X-Processing-Time'', PFloat (elapsed env))], w') \<and>
         fs w' (tm_output_path (uuid4 env) req) = Some b))"
proof (intro conjI allI impI)
  fix rm n ip w1 st w2
  assume "arg_float env req ''radius_multiplier'' 1.5 = Inr rm \<and>
      arg_int env req ''num_radii'' 2 = Inr n \<and>
      save_input env lib req (uuid4 env) w = (Inr ip, w1) \<and>
      reconstruct_mesh_ball_pivoting env lib ip (output_path (uuid4 env) req)
        (Some \<lparr>radius_multiplier = Some rm, num_radii = Some n,
               estimate_normals_flag = Some True, normal_radius = None,
               normal_max_nn = None\<rparr>) w1 = (Inr st, w2)"
  then show "\<exists>b mesh w'.
         create_mesh env lib req w =
           (SendFile b ''application/octet-stream''
              (''mesh_'' @ uuid4 env @ ''.'' @
                 (if arg_str req ''format'' ''ply'' = ''ply'' then ''ply'' else ''obj''))
              [(''X-Num-Vertices'', PInt (int (num_vertices lib mesh))),
               (''X-Num-Triangles'', PInt (int (num_triangles lib mesh))),
               (''X-Processing-Time'', PFloat (elapsed env))], w') \<and>
         write_triangle_mesh lib (output_path (uuid4 env) req) mesh = Inr (Some b) \<and>
         fs w2 (output_path (uuid4 env) req) = Some b \<and>
         fs w' (output_path (uuid4 env) req) = Some b"
    using create_mesh_forward [of env req rm n lib w ip w1 st w2] by blast
next
  fix a coords colors w1 mesh st w2 b
  assume "tm_alpha env req = Inr a \<and>
      tm_parse_input env tlib req (uuid4 env) w = (Inr (coords, colors), w1) \<and>
      reconstruct_mesh_alpha_shape env tlib coords colors a w1 = (Inr (mesh, st), w2) \<and>
      export tlib (tm_output_path (uuid4 env) req) mesh = Inr b"
  then show "\<exists>w'.
         tm_create_mesh env tlib req w =
           (SendFile b ''application/octet-stream''
              (''mesh_'' @ uuid4 env @ ''.'' @ lower (arg_str req ''format'' ''ply''))
              [(''X-Num-Vertices'', PInt (int (length (mesh_vertices tlib mesh)))),
               (''X-Num-Triangles'', PInt (int (num_faces tlib mesh))),
               (''X-Processing-Time'', PFloat (elapsed env))], w') \<and>
         fs w' (tm_output_path (uuid4 env) req) = Some b"
    using tm_create_mesh_forward [of env req a tlib w coords colors w1 mesh st w2 b] by blast
qed

theorem create_mesh_returns_saved_mesh_witness:
  "(\<exists>b mesh w'.
      create_mesh demo_env demo_o3d (binary_request [] ''abcd'') world0 =
        (SendFile b ''application/octet-stream'' (''mesh_'' @ demo_id @ ''.ply'')
           [(''X-Num-Vertices'', PInt (int (num_vertices demo_o3d mesh))),
            (''X-Num-Triangles'', PInt (int (num_triangles demo_o3d mesh))),
            (''X-Processing-Time'', PFloat (1 / 4))], w') \<and>
      write_triangle_mesh demo_o3d (''outputs/'' @ demo_id @ ''.ply'') mesh = Inr (Some b) \<and>
      fs w' (''outputs/'' @ demo_id @ ''.ply'') = Some b) \<and>
   (\<exists>w'.
      tm_create_mesh demo_env demo_trimesh (binary_request [(''format'', ''OBJ'')] ''abcd'')
        world0 =
        (SendFile ''ffffffff'' ''application/octet-stream'' (''mesh_'' @ demo_id @ ''.obj'')
           [(''X-Num-Vertices'', PInt 4), (''X-Num-Triangles'', PInt 8),
            (''X-Processing-Time'', PFloat (1 / 4))], w') \<and>
      fs w' (''outputs/'' @ demo_id @ ''.obj'') = Some ''ffffffff'')"
proof -
  let ?req = "binary_request [] ''abcd''"
  let ?prm = "\<lparr>radius_multiplier = Some 1.5, num_radii = Some 2,
               estimate_normals_flag = Some True, normal_radius = None,
               normal_max_nn = None\<rparr>"
  let ?st = "\<lparr>num_input_points = 4, stat_num_vertices = 4, stat_num_triangles = 2,
              processing_time = 1 / 4, radii_used = [3 / 10, 9 / 20],
              avg_point_distance = 1 / 5\<rparr>"
  let ?ip = "''uploads/'' @ demo_id @ ''.ply''"
  let ?s = "save_input demo_env demo_o3d ?req (uuid4 demo_env) world0"
  let ?r = "reconstruct_mesh_ball_pivoting demo_env demo_o3d ?ip
              (output_path (uuid4 demo_env) ?req) (Some ?prm) (snd ?s)"
  have id: "uuid4 demo_env = demo_id" "elapsed demo_env = 1 / 4"
    by (simp_all add: demo_env_def)
  have out: "output_path demo_id ?req = ''outputs/'' @ demo_id @ ''.ply''"
    by (simp add: output_path_def arg_str_def binary_request_def)
  have fmt: "arg_str ?req ''format'' ''ply'' = ''ply''"
    by (simp add: arg_str_def binary_request_def)
  have h1: "arg_float demo_env ?req ''radius_multiplier'' 1.5 = Inr 1.5"
    and h2: "arg_int demo_env ?req ''num_radii'' 2 = Inr 2"
    by (simp_all add: arg_float_def arg_int_def binary_request_def)
  have "fst ?s = Inr ?ip"
    by code_simp
  then have h3: "?s = (Inr ?ip, snd ?s)"
    by (simp add: prod_eq_iff)
  have "fst ?r = Inr ?st"
    by code_simp
  then have h4: "?r = (Inr ?st, snd ?r)"
    by (simp add: prod_eq_iff)
  from create_mesh_returns_saved_mesh [of demo_env ?req demo_o3d world0 demo_trimesh]
    h1 h2 h3 h4
  have "\<exists>b mesh w'.
         create_mesh demo_env demo_o3d ?req world0 =
           (SendFile b ''application/octet-stream''
              (''mesh_'' @ uuid4 demo_env @ ''.'' @
                 (if arg_str ?req ''format'' ''ply'' = ''ply'' then ''ply'' else ''obj''))
              [(''X-Num-Vertices'', PInt (int (num_vertices demo_o3d mesh))),
               (''X-Num-Triangles'', PInt (int (num_triangles demo_o3d mesh))),
               (''X-Processing-Time'', PFloat (elapsed demo_env))], w') \<and>
         write_triangle_mesh demo_o3d (output_path (uuid4 demo_env) ?req) mesh = Inr (Some b) \<and>
         fs (snd ?r) (output_path (uuid4 demo_env) ?req) = Some b \<and>
         fs w' (output_path (uuid4 demo_env) ?req) = Some b"
    by blast
  then have part1: "\<exists>b mesh w'.
      create_mesh demo_env demo_o3d ?req world0 =
        (SendFile b ''application/octet-stream'' (''mesh_'' @ demo_id @ ''.ply'')
           [(''X-Num-Vertices'', PInt (int (num_vertices demo_o3d mesh))),
            (''X-Num-Triangles'', PInt (int (num_triangles demo_o3d mesh))),
            (''X-Processing-Time'', PFloat (1 / 4))], w') \<and>
      write_triangle_mesh demo_o3d (''outputs/'' @ demo_id @ ''.ply'') mesh = Inr (Some b) \<and>
      fs w' (''outputs/'' @ demo_id @ ''.ply'') = Some b"
    unfolding id out fmt by auto
  let ?req2 = "binary_request [(''format'', ''OBJ'')] ''abcd''"
  let ?coords = "replicate 4 (0, 0, 1) :: vec3 list"
  let ?colors = "replicate 4 (128, 128, 128) :: rgb list"
  let ?tst = "\<lparr>tm_num_input_points = 4, tm_num_vertices = 4, tm_num_triangles = 8,
               tm_processing_time = 1 / 4, alpha_used = 1 / 20\<rparr>"
  let ?p = "tm_parse_input demo_env demo_trimesh ?req2 (uuid4 demo_env) world0"
  let ?q = "reconstruct_mesh_alpha_shape demo_env demo_trimesh ?coords ?colors (1 / 20) (snd ?p)"
  have out2: "tm_output_path demo_id ?req2 = ''outputs/'' @ demo_id @ ''.obj''"
    by code_simp
  have fmt2: "lower (arg_str ?req2 ''format'' ''ply'') = ''obj''"
    by code_simp
  have g1: "tm_alpha demo_env ?req2 = Inr (1 / 20)"
    by (simp add: tm_alpha_def arg_float_def binary_request_def bindE_def)
  have "fst ?p = Inr (?coords, ?colors)"
    by code_simp
  then have g2: "?p = (Inr (?coords, ?colors), snd ?p)"
    by (simp add: prod_eq_iff)
  have "fst ?q = Inr ((4, 8), ?tst)"
    by code_simp
  then have g3: "?q = (Inr ((4, 8), ?tst), snd ?q)"
    by (simp add: prod_eq_iff)
  have g4: "export demo_trimesh (tm_output_path (uuid4 demo_env) ?req2) (4, 8) = Inr ''ffffffff''"
    by code_simp
  from create_mesh_returns_saved_mesh [of demo_env ?req2 demo_o3d world0 demo_trimesh]
    g1 g2 g3 g4
  have "\<exists>w'.
         tm_create_mesh demo_env demo_trimesh ?req2 world0 =
           (SendFile ''ffffffff'' ''application/octet-stream''
              (''mesh_'' @ uuid4 demo_env @ ''.'' @ lower (arg_str ?req2 ''format'' ''ply''))
              [(''X-Num-Vertices'', PInt (int (length (mesh_vertices demo_trimesh (4, 8))))),
               (''X-Num-Triangles'', PInt (int (num_faces demo_trimesh (4, 8)))),
               (''X-Processing-Time'', PFloat (elapsed demo_env))], w') \<and>
         fs w' (tm_output_path (uuid4 demo_env) ?req2) = Some ''ffffffff''"
    by blast
  then have part2: "\<exists>w'.
      tm_create_mesh demo_env demo_trimesh ?req2 world0 =
        (SendFile ''ffffffff'' ''application/octet-stream'' (''mesh_'' @ demo_id @ ''.obj'')
           [(''X-Num-Vertices'', PInt 4), (''X-Num-Triangles'', PInt 8),
            (''X-Processing-Time'', PFloat (1 / 4))], w') \<and>
      fs w' (''outputs/'' @ demo_id @ ''.obj'') = Some ''ffffffff''"
    unfolding id out2 fmt2 by (simp add: demo_trimesh_def)
  from part1 part2 show ?thesis
    by (rule conjI)
qed

theorem export_failure_counterexample:
  "fst (tm_parse_input demo_env demo_trimesh (binary_request [(''format'', ''foo'')] ''abcd'')
          demo_id world0)
     = Inr (replicate 4 (0, 0, 1), replicate 4 (128, 128, 128)) \<and>
   fst (reconstruct_mesh_alpha_shape demo_env demo_trimesh (replicate 4 (0, 0, 1))
          (replicate 4 (128, 128, 128)) (1 / 20)
          (snd (tm_parse_input demo_env demo_trimesh
                  (binary_request [(''format'', ''foo'')] ''abcd'') demo_id world0)))
     = Inr ((4, 8), \<lparr>tm_num_input_points = 4, tm_num_vertices = 4, tm_num_triangles = 8,
                      tm_processing_time = 1 / 4, alpha_used = 1 / 20\<rparr>) \<and>
   fst (tm_create_mesh demo_env demo_trimesh (binary_request [(''format'', ''foo'')] ''abcd'')
          world0)
     = Jsonify 500 [(''error'', PStr ''unsupported export type''),
                    (''type'', PStr ''ValueError'')]"
  by code_simp

end
